theory Spec2Isabelle
  imports Main "HOL-Library.Sublist"
begin

section \<open>The development server of NeverEverLand v003 (\<open>src/v003/serve.py\<close>)\<close>

text \<open>
  \<open>serve.py\<close> is a subclass \<open>CustomHandler\<close> of the standard library's
  \<open>http.server.SimpleHTTPRequestHandler\<close> and a \<open>main\<close> function that runs a
  \<open>socketserver.TCPServer\<close> with it. The three methods of \<open>CustomHandler\<close> and \<open>main\<close>
  are embedded from the source. The inherited methods they call, and that call them back
  through dynamic dispatch, are embedded from CPython's \<open>http/server.py\<close> and
  \<open>socketserver.py\<close>; each such definition says so. What those modules take from
  elsewhere (the table of reason phrases, dates, URL unquoting, MIME guessing, HTML
  bodies) is a field of the record \<open>stdlib\<close>, a parameter of the model.

  Strings are byte strings: a non-ASCII character of the source is its UTF-8 encoding.
\<close>

subsection \<open>Strings\<close>

definition CRLF :: string where
  "CRLF = [CHR 0x0D, CHR 0x0A]"

text \<open>Python's \<open>str(n)\<close> and \<open>'%d' % n\<close> for a natural number.\<close>

fun str_nat :: "nat \<Rightarrow> string" where
  "str_nat n =
     (if n < 10 then [''0123456789'' ! n]
      else str_nat (n div 10) @ [''0123456789'' ! (n mod 10)])"

declare str_nat.simps [simp del]

text \<open>\<open>sep.join(xs)\<close>.\<close>

fun join :: "string \<Rightarrow> string list \<Rightarrow> string" where
  "join sep [] = []"
| "join sep [x] = x"
| "join sep (x # y # ys) = x @ sep @ join sep (y # ys)"

subsection \<open>Exceptions and results\<close>

datatype exn = OSError | ValueError | KeyboardInterrupt | AttributeError | SystemExit int

text \<open>
  A method either returns a value or raises; in both cases the object it worked on keeps
  the changes made so far, so both results carry the state.
\<close>

datatype ('v, 's) result = Returns 'v 's | Raises exn 's

fun state_of :: "('v, 's) result \<Rightarrow> 's" where
  "state_of (Returns v s) = s"
| "state_of (Raises e s) = s"

fun raised :: "('v, 's) result \<Rightarrow> exn option" where
  "raised (Returns v s) = None"
| "raised (Raises e s) = Some e"

subsection \<open>The request handler object\<close>

text \<open>
  One write call on the connection: the header block that \<open>flush_headers\<close> writes
  as \<open>b"".join(self._headers_buffer)\<close>, kept as the list of its lines, or a body.
\<close>

datatype chunk = HeaderBlock "string list" | Body string

fun bytes_of :: "chunk \<Rightarrow> string" where
  "bytes_of (HeaderBlock ls) = concat ls"
| "bytes_of (Body b) = b"

text \<open>
  The attributes of a handler instance that the methods below read or write. An attribute
  that is not set yet is \<open>None\<close> (\<open>path\<close>, \<open>_headers_buffer\<close>); \<open>command\<close> is
  Python's \<open>None\<close> until \<open>parse_request\<close> assigns it. \<open>directory\<close> is an absolute path,
  as the list of its components. \<open>wfile\<close> is what has been written to the connection and
  \<open>printed\<close> what this handler has printed to standard output, one entry per \<open>print\<close>.
\<close>

record handler =
  directory :: "string list"
  client_address :: string
  requestline :: string
  command :: "string option"
  path :: "string option"
  request_version :: string
  headers_buffer :: "string list option"
  wfile :: "chunk list"
  printed :: "string list"

text \<open>
  What \<open>http.server\<close> takes from other modules: \<open>responses\<close> is the table of reason
  phrases and explanations, \<open>error_body\<close> the encoded \<open>error_message_format\<close> page for a
  code, message and explanation, \<open>url_words\<close> the non-empty components of the unquoted,
  normalised URL path, \<open>url_path\<close> the path part of \<open>urlsplit\<close>, \<open>redirect_url\<close> the URL
  with a slash added to its path, \<open>guess_type\<close> the MIME guess for a file name,
  \<open>listing_body\<close> the encoded HTML listing for a request path, a directory and its
  entries, \<open>filesystem_encoding\<close> the name of that encoding, \<open>repr\<close> Python's
  \<open>'%r'\<close> of a string.
\<close>

record stdlib =
  responses :: "nat \<Rightarrow> (string \<times> string) option"
  version_string :: string
  date_time_string :: "nat option \<Rightarrow> string"
  error_body :: "nat \<Rightarrow> string \<Rightarrow> string \<Rightarrow> string"
  url_words :: "string \<Rightarrow> string list"
  url_path :: "string \<Rightarrow> string"
  redirect_url :: "string \<Rightarrow> string"
  guess_type :: "string \<Rightarrow> string"
  listing_body :: "string \<Rightarrow> string \<Rightarrow> string list \<Rightarrow> string"
  filesystem_encoding :: string
  repr :: "string \<Rightarrow> string"

definition protocol_version :: string where
  "protocol_version = ''HTTP/1.0''"

definition error_content_type :: string where
  "error_content_type = ''text/html;charset=utf-8''"

subsection \<open>\<open>CustomHandler.log_message\<close> (serve.py, lines 31-33)\<close>

text \<open>
  \<open>print(f"[{self.address_string()}] {format % args}")\<close>. The argument \<open>msg\<close> is
  \<open>format % args\<close>, which the callers below build; \<open>address_string\<close> returns
  \<open>self.client_address[0]\<close>.
\<close>

definition log_message :: "handler \<Rightarrow> string \<Rightarrow> handler" where
  "log_message h msg = h\<lparr>printed := printed h @ [''['' @ client_address h @ ''] '' @ msg]\<rparr>"

text \<open>\<open>BaseHTTPRequestHandler.log_request\<close> and \<open>log_error\<close> (http/server.py).\<close>

definition log_request :: "handler \<Rightarrow> nat \<Rightarrow> handler" where
  "log_request h code =
     log_message h ([CHR 0x22] @ requestline h @ [CHR 0x22] @ '' '' @ str_nat code @ '' -'')"

definition log_error :: "handler \<Rightarrow> string \<Rightarrow> handler" where
  "log_error h msg = log_message h msg"

subsection \<open>The header buffer (http/server.py)\<close>

text \<open>
  \<open>BaseHTTPRequestHandler.send_header\<close>: the line is appended to \<open>_headers_buffer\<close>,
  which is created when absent, unless the request is HTTP/0.9. (The method also sets
  \<open>close_connection\<close> for a \<open>Connection\<close> header; with \<open>protocol_version\<close> HTTP/1.0
  that attribute is true throughout and is not modelled.)
\<close>

definition send_header :: "handler \<Rightarrow> string \<Rightarrow> string \<Rightarrow> handler" where
  "send_header h keyword val =
     (if request_version h \<noteq> ''HTTP/0.9''
      then h\<lparr>headers_buffer :=
               Some ((case headers_buffer h of None \<Rightarrow> [] | Some b \<Rightarrow> b)
                     @ [keyword @ '': '' @ val @ CRLF])\<rparr>
      else h)"

text \<open>\<open>BaseHTTPRequestHandler.send_response_only\<close>: the status line.\<close>

definition send_response_only :: "stdlib \<Rightarrow> handler \<Rightarrow> nat \<Rightarrow> string option \<Rightarrow> handler" where
  "send_response_only lib h code message =
     (if request_version h \<noteq> ''HTTP/0.9''
      then
        (let m = (case message of
                    Some m \<Rightarrow> m
                  | None \<Rightarrow> (case responses lib code of Some (short, long) \<Rightarrow> short | None \<Rightarrow> ''''))
         in h\<lparr>headers_buffer :=
                 Some ((case headers_buffer h of None \<Rightarrow> [] | Some b \<Rightarrow> b)
                       @ [protocol_version @ '' '' @ str_nat code @ '' '' @ m @ CRLF])\<rparr>)
      else h)"

text \<open>\<open>BaseHTTPRequestHandler.send_response\<close>.\<close>

definition send_response :: "stdlib \<Rightarrow> handler \<Rightarrow> nat \<Rightarrow> string option \<Rightarrow> handler" where
  "send_response lib h code message =
     (let h1 = log_request h code;
          h2 = send_response_only lib h1 code message;
          h3 = send_header h2 ''Server'' (version_string lib)
      in send_header h3 ''Date'' (date_time_string lib None))"

text \<open>\<open>BaseHTTPRequestHandler.flush_headers\<close>.\<close>

definition flush_headers :: "handler \<Rightarrow> handler" where
  "flush_headers h =
     (case headers_buffer h of
        None \<Rightarrow> h
      | Some b \<Rightarrow> h\<lparr>wfile := wfile h @ [HeaderBlock b], headers_buffer := Some []\<rparr>)"

text \<open>
  \<open>BaseHTTPRequestHandler.end_headers\<close>, which \<open>CustomHandler.end_headers\<close> calls as
  \<open>super().end_headers()\<close>. Appending to an absent buffer raises.
\<close>

definition base_end_headers :: "handler \<Rightarrow> (unit, handler) result" where
  "base_end_headers h =
     (if request_version h \<noteq> ''HTTP/0.9''
      then (case headers_buffer h of
              None \<Rightarrow> Raises AttributeError h
            | Some b \<Rightarrow> Returns () (flush_headers (h\<lparr>headers_buffer := Some (b @ [CRLF])\<rparr>)))
      else Returns () h)"

subsection \<open>\<open>CustomHandler.end_headers\<close> (serve.py, lines 19-29)\<close>

text \<open>
  Three \<open>send_header\<close> calls, a fourth when \<open>self.path\<close> ends in \<open>.js\<close>, then the
  inherited \<open>end_headers\<close>. Reading \<open>self.path\<close> before \<open>parse_request\<close> has assigned it
  raises \<open>AttributeError\<close>.
\<close>

definition end_headers :: "handler \<Rightarrow> (unit, handler) result" where
  "end_headers h =
     (let h1 = send_header h ''Access-Control-Allow-Origin'' ''*'';
          h2 = send_header h1 ''Access-Control-Allow-Methods'' ''GET, POST, OPTIONS'';
          h3 = send_header h2 ''Access-Control-Allow-Headers'' ''Content-Type''
      in case path h3 of
           None \<Rightarrow> Raises AttributeError h3
         | Some p \<Rightarrow>
             base_end_headers
               (if suffix ''.js'' p then send_header h3 ''Content-Type'' ''text/javascript''
                else h3))"

text \<open>The header lines that \<open>end_headers\<close> adds, as \<open>send_header\<close> formats them.\<close>

definition cors_lines :: "string list" where
  "cors_lines =
     [''Access-Control-Allow-Origin: *'' @ CRLF,
      ''Access-Control-Allow-Methods: GET, POST, OPTIONS'' @ CRLF,
      ''Access-Control-Allow-Headers: Content-Type'' @ CRLF]"

definition js_line :: string where
  "js_line = ''Content-Type: text/javascript'' @ CRLF"

subsection \<open>Error responses (http/server.py)\<close>

text \<open>
  \<open>BaseHTTPRequestHandler.send_error\<close>. It calls \<open>self.end_headers()\<close>, which is
  \<open>CustomHandler.end_headers\<close>; the body is written after the header block, unless the
  command is HEAD.
\<close>

definition send_error ::
  "stdlib \<Rightarrow> handler \<Rightarrow> nat \<Rightarrow> string option \<Rightarrow> string option \<Rightarrow> (unit, handler) result" where
  "send_error lib h code message explain =
     (let (shortmsg, longmsg) =
            (case responses lib code of Some sl \<Rightarrow> sl | None \<Rightarrow> (''???'', ''???''));
          message = (case message of None \<Rightarrow> shortmsg | Some m \<Rightarrow> m);
          explain = (case explain of None \<Rightarrow> longmsg | Some x \<Rightarrow> x);
          h1 = log_error h (''code '' @ str_nat code @ '', message '' @ message);
          h2 = send_response lib h1 code (Some message);
          h3 = send_header h2 ''Connection'' ''close'';
          body = (if code \<ge> 200 \<and> code \<notin> {204, 205, 304}
                  then Some (error_body lib code message explain) else None);
          h4 = (case body of
                  None \<Rightarrow> h3
                | Some b \<Rightarrow>
                    send_header (send_header h3 ''Content-Type'' error_content_type)
                      ''Content-Length'' (str_nat (length b)))
      in case end_headers h4 of
           Raises e h5 \<Rightarrow> Raises e h5
         | Returns u h5 \<Rightarrow>
             (case body of
                None \<Rightarrow> Returns () h5
              | Some b \<Rightarrow>
                  if command h5 \<noteq> Some ''HEAD'' \<and> b \<noteq> []
                  then Returns () (h5\<lparr>wfile := wfile h5 @ [Body b]\<rparr>)
                  else Returns () h5))"

subsection \<open>Files (http/server.py)\<close>

text \<open>
  What the file system holds at an absolute path: nothing that can be opened, a regular
  file with its content and modification time, or a directory with its listing
  (\<open>None\<close> when \<open>os.listdir\<close> fails). \<open>Invalid\<close> is a path that cannot be
  passed to the operating system at all (an embedded NUL, a character that the file
  system encoding lacks): \<open>os.path.isdir\<close> and \<open>os.path.isfile\<close> answer false for
  it, and \<open>open\<close> raises \<open>ValueError\<close>, not \<open>OSError\<close>.
\<close>

datatype entry = Missing | File string nat | Dir "string list option" | Invalid

type_synonym filesystem = "string list \<Rightarrow> entry"

text \<open>The text of an absolute path, and \<open>Path(...).parent\<close>.\<close>

definition fspath :: "string list \<Rightarrow> string" where
  "fspath cs = ''/'' @ join ''/'' cs"

definition parent :: "string list \<Rightarrow> string list" where
  "parent cs = butlast cs"

text \<open>\<open>str.isspace\<close> on a character of an ISO-8859-1 string, and \<open>str.rstrip()\<close>.\<close>

definition isspace :: "char \<Rightarrow> bool" where
  "isspace c =
     (let n = (of_char c :: nat)
      in (9 \<le> n \<and> n \<le> 13) \<or> (28 \<le> n \<and> n \<le> 32) \<or> n = 133 \<or> n = 160)"

definition rstrip :: "string \<Rightarrow> string" where
  "rstrip s = rev (dropWhile isspace (rev s))"

text \<open>
  \<open>SimpleHTTPRequestHandler.translate_path\<close>: the query and the fragment are cut off,
  and the words of the URL path are joined to \<open>dir\<close>, which is \<open>self.directory\<close>,
  except those that are not a simple name. The result is the path and whether a slash is
  appended to it.
\<close>

definition translate_path :: "stdlib \<Rightarrow> string list \<Rightarrow> string \<Rightarrow> string list \<times> bool" where
  "translate_path lib dir p =
     (let p1 = takeWhile (\<lambda>c. c \<noteq> CHR ''?'') p;
          p2 = takeWhile (\<lambda>c. c \<noteq> CHR ''#'') p1;
          trailing_slash = suffix ''/'' (rstrip p2);
          words = url_words lib p2
      in (foldl (\<lambda>path word.
                   if CHR ''/'' \<in> set word \<or> word = ''.'' \<or> word = ''..'' then path
                   else path @ [word])
            dir words,
          trailing_slash))"

definition path_text :: "string list \<times> bool \<Rightarrow> string" where
  "path_text pt = fspath (fst pt) @ (if snd pt then ''/'' else [])"

text \<open>
  \<open>SimpleHTTPRequestHandler.list_directory\<close>. The value returned is the content of
  the file object to copy, if any.
\<close>

definition list_directory ::
  "stdlib \<Rightarrow> handler \<Rightarrow> string \<Rightarrow> string list option \<Rightarrow> (string option, handler) result" where
  "list_directory lib h ptext listing =
     (case listing of
        None \<Rightarrow>
          (case send_error lib h 404 (Some ''No permission to list directory'') None of
             Raises e h1 \<Rightarrow> Raises e h1
           | Returns u h1 \<Rightarrow> Returns None h1)
      | Some names \<Rightarrow>
          (case path h of
             None \<Rightarrow> Raises AttributeError h
           | Some p \<Rightarrow>
               (let encoded = listing_body lib p ptext names;
                    h1 = send_response lib h 200 None;
                    h2 = send_header h1 ''Content-type''
                           (''text/html; charset='' @ filesystem_encoding lib);
                    h3 = send_header h2 ''Content-Length'' (str_nat (length encoded))
                in case end_headers h3 of
                     Raises e h4 \<Rightarrow> Raises e h4
                   | Returns u h4 \<Rightarrow> Returns (Some encoded) h4)))"

text \<open>
  The second half of \<open>SimpleHTTPRequestHandler.send_head\<close>, from
  \<open>ctype = self.guess_type(path)\<close> on: the file at \<open>pt\<close> is opened and its headers are
  sent. \<open>ims\<close> is the time of a well-formed \<open>If-Modified-Since\<close> header in UTC that no
  \<open>If-None-Match\<close> header accompanies. Only \<open>OSError\<close> is caught around \<open>open\<close>: the
  \<open>ValueError\<close> of an invalid path leaves the method, before anything is buffered.
\<close>

definition send_head_file ::
  "stdlib \<Rightarrow> filesystem \<Rightarrow> nat option \<Rightarrow> handler \<Rightarrow> string list \<times> bool
     \<Rightarrow> (string option, handler) result" where
  "send_head_file lib fs ims h pt =
     (let ctype = guess_type lib (path_text pt)
      in if suffix ''/'' (path_text pt)
         then (case send_error lib h 404 (Some ''File not found'') None of
                 Raises e h1 \<Rightarrow> Raises e h1
               | Returns u h1 \<Rightarrow> Returns None h1)
         else
           (case fs (fst pt) of
              File content mtime \<Rightarrow>
                if (case ims of None \<Rightarrow> False | Some t \<Rightarrow> mtime \<le> t)
                then (case end_headers (send_response lib h 304 None) of
                        Raises e h1 \<Rightarrow> Raises e h1
                      | Returns u h1 \<Rightarrow> Returns None h1)
                else
                  (let h1 = send_response lib h 200 None;
                       h2 = send_header h1 ''Content-type'' ctype;
                       h3 = send_header h2 ''Content-Length'' (str_nat (length content));
                       h4 = send_header h3 ''Last-Modified'' (date_time_string lib (Some mtime))
                   in case end_headers h4 of
                        Raises e h5 \<Rightarrow> Raises e h5
                      | Returns u h5 \<Rightarrow> Returns (Some content) h5)
            | Invalid \<Rightarrow> Raises ValueError h
            | _ \<Rightarrow>
                (case send_error lib h 404 (Some ''File not found'') None of
                   Raises e h1 \<Rightarrow> Raises e h1
                 | Returns u h1 \<Rightarrow> Returns None h1)))"

text \<open>\<open>SimpleHTTPRequestHandler.send_head\<close>.\<close>

definition send_head ::
  "stdlib \<Rightarrow> filesystem \<Rightarrow> nat option \<Rightarrow> handler \<Rightarrow> (string option, handler) result" where
  "send_head lib fs ims h =
     (case path h of
        None \<Rightarrow> Raises AttributeError h
      | Some p \<Rightarrow>
          (let pt = translate_path lib (directory h) p
           in case fs (fst pt) of
                Dir listing \<Rightarrow>
                  if \<not> suffix ''/'' (url_path lib p)
                  then
                    (let h1 = send_response lib h 301 None;
                         h2 = send_header h1 ''Location'' (redirect_url lib p);
                         h3 = send_header h2 ''Content-Length'' ''0''
                     in case end_headers h3 of
                          Raises e h4 \<Rightarrow> Raises e h4
                        | Returns u h4 \<Rightarrow> Returns None h4)
                  else
                    (case filter (\<lambda>index. case fs (fst pt @ [index]) of
                                            File c m \<Rightarrow> True | _ \<Rightarrow> False)
                            [''index.html'', ''index.htm''] of
                       index # _ \<Rightarrow> send_head_file lib fs ims h (fst pt @ [index], False)
                     | [] \<Rightarrow> list_directory lib h (path_text pt) listing)
              | _ \<Rightarrow> send_head_file lib fs ims h pt))"

text \<open>
  \<open>SimpleHTTPRequestHandler.do_GET\<close> and \<open>do_HEAD\<close>. \<open>copyfile\<close> writes the content
  to the connection (nothing for empty content). The client is taken to read what is
  written: a write to the connection does not fail.
\<close>

definition do_GET :: "stdlib \<Rightarrow> filesystem \<Rightarrow> nat option \<Rightarrow> handler \<Rightarrow> (unit, handler) result" where
  "do_GET lib fs ims h =
     (case send_head lib fs ims h of
        Raises e h1 \<Rightarrow> Raises e h1
      | Returns None h1 \<Rightarrow> Returns () h1
      | Returns (Some content) h1 \<Rightarrow>
          Returns () (if content \<noteq> [] then h1\<lparr>wfile := wfile h1 @ [Body content]\<rparr> else h1))"

definition do_HEAD :: "stdlib \<Rightarrow> filesystem \<Rightarrow> nat option \<Rightarrow> handler \<Rightarrow> (unit, handler) result" where
  "do_HEAD lib fs ims h =
     (case send_head lib fs ims h of
        Raises e h1 \<Rightarrow> Raises e h1
      | Returns f h1 \<Rightarrow> Returns () h1)"

subsection \<open>One request (http/server.py)\<close>

text \<open>
  What \<open>parse_request\<close> makes of the bytes a client sends. A request line that is
  rejected leaves \<open>self.path\<close> unassigned: the error is sent before the assignment
  \<open>self.command, self.path = command, path\<close>. A request that passes it has a command, a
  path and a version; its headers may still be rejected (\<open>rq_headers_error\<close>: message
  and explanation of the 431 response).
\<close>

record http_request =
  rq_line :: string
  rq_command :: string
  rq_path :: string
  rq_version :: string
  rq_headers_error :: "(string \<times> string) option"
  rq_if_modified_since :: "nat option"

text \<open>
  \<open>LineTooLong\<close>: the request line has more than 65536 bytes. \<open>NoRequest\<close>: the
  connection closes without a request line, or the line is blank. \<open>BadRequestLine line
  version code message\<close>: \<open>parse_request\<close> rejects the request line with
  \<open>send_error(code, message)\<close> while \<open>request_version\<close> is \<open>version\<close>.
\<close>

datatype request =
    LineTooLong
  | NoRequest
  | BadRequestLine string string nat string
  | Parsed http_request

text \<open>
  The end of the request-line part of \<open>parse_request\<close>: a path that starts with two
  slashes is reduced to one starting with a single slash before it is assigned to
  \<open>self.path\<close>.
\<close>

definition reduce_slashes :: "string \<Rightarrow> string" where
  "reduce_slashes p =
     (if prefix ''//'' p then ''/'' @ dropWhile (\<lambda>c. c = CHR ''/'') p else p)"

text \<open>
  \<open>BaseHTTPRequestHandler.handle_one_request\<close> with \<open>parse_request\<close>. The class has
  \<open>do_GET\<close> and \<open>do_HEAD\<close> and no other \<open>do_\<close> method. With \<open>protocol_version\<close>
  HTTP/1.0 the connection is closed after one request, so \<open>handle\<close> is one call of it.
\<close>

definition handle_one_request ::
  "stdlib \<Rightarrow> filesystem \<Rightarrow> request \<Rightarrow> handler \<Rightarrow> (unit, handler) result" where
  "handle_one_request lib fs rq h =
     (case rq of
        LineTooLong \<Rightarrow>
          send_error lib (h\<lparr>requestline := [], request_version := [], command := Some []\<rparr>)
            414 None None
      | NoRequest \<Rightarrow> Returns () h
      | BadRequestLine line version code message \<Rightarrow>
          send_error lib (h\<lparr>command := None, request_version := version, requestline := line\<rparr>)
            code (Some message) None
      | Parsed r \<Rightarrow>
          (let h1 = h\<lparr>command := Some (rq_command r), path := Some (reduce_slashes (rq_path r)),
                      request_version := rq_version r, requestline := rq_line r\<rparr>
           in case rq_headers_error r of
                Some (message, explain) \<Rightarrow> send_error lib h1 431 (Some message) (Some explain)
              | None \<Rightarrow>
                  if rq_command r = ''GET'' then do_GET lib fs (rq_if_modified_since r) h1
                  else if rq_command r = ''HEAD'' then do_HEAD lib fs (rq_if_modified_since r) h1
                  else send_error lib h1 501
                         (Some (''Unsupported method ('' @ repr lib (rq_command r) @ '')'')) None))"

definition handle :: "stdlib \<Rightarrow> filesystem \<Rightarrow> request \<Rightarrow> handler \<Rightarrow> (unit, handler) result" where
  "handle lib fs rq h = handle_one_request lib fs rq h"

subsection \<open>\<open>CustomHandler.__init__\<close> (serve.py, lines 16-17)\<close>

text \<open>
  \<open>super().__init__(*args, directory=Path(__file__).parent, **kwargs)\<close>: the inherited
  constructor stores the directory and the client address and handles the request.
  \<open>file\<close> is \<open>__file__\<close>, the absolute path of the script. The attributes that are not
  assigned yet are read by no method before \<open>handle_one_request\<close> assigns them.
\<close>

definition CustomHandler ::
  "string list \<Rightarrow> stdlib \<Rightarrow> filesystem \<Rightarrow> string \<Rightarrow> request \<Rightarrow> (unit, handler) result" where
  "CustomHandler file lib fs address rq =
     handle lib fs rq
       \<lparr>directory = parent file, client_address = address, requestline = [],
        command = None, path = None, request_version = [], headers_buffer = None,
        wfile = [], printed = []\<rparr>"

subsection \<open>The process and its environment\<close>

text \<open>
  The state of the running process that can be observed: the working directory, what
  was printed to standard output (one entry per \<open>print\<close> call, without the newline that
  \<open>print\<close> adds) and the exceptions whose traceback went to standard error, the ports
  passed to \<open>bind\<close>, the port of the listening socket while it is open, and what was
  written to each accepted connection.
\<close>

record process =
  cwd :: "string list"
  stdout :: "string list"
  stderr :: "exn list"
  bind_calls :: "nat list"
  listening :: "nat option"
  connections :: "chunk list list"

text \<open>
  What the process is started in: \<open>script_file\<close> is \<open>__file__\<close>, the absolute path of the
  script (as Python 3.9 and later set it for the main module); \<open>invocation_cwd\<close> is the
  working directory at invocation; \<open>port_in_use\<close> tells the ports that another socket
  holds; \<open>library\<close> and \<open>files\<close> are the standard library and the file system;
  \<open>sigint_at = Some k\<close> delivers an interrupt while statement \<open>k\<close> of \<open>main\<close>
  runs, counted from 0: \<open>os.chdir\<close>, the \<open>TCPServer\<close> constructor, then the six
  \<open>print\<close> calls.
\<close>

record env =
  script_file :: "string list"
  invocation_cwd :: "string list"
  port_in_use :: "nat \<Rightarrow> bool"
  sigint_at :: "nat option"
  library :: stdlib
  files :: filesystem

text \<open>What happens while \<open>serve_forever\<close> runs: a client connects, or an interrupt arrives.\<close>

datatype event = Connection string request | SIGINT

definition PORT :: nat where
  "PORT = 8000"

subsection \<open>The server (socketserver.py)\<close>

text \<open>
  \<open>TCPServer.__init__\<close> with \<open>server_bind\<close>: \<open>allow_reuse_address\<close> is false, so
  binding a port that is in use raises \<open>OSError\<close>, after the constructor has closed
  the socket.
\<close>

definition TCPServer :: "env \<Rightarrow> nat \<Rightarrow> process \<Rightarrow> (unit, process) result" where
  "TCPServer e port p =
     (let p1 = p\<lparr>bind_calls := bind_calls p @ [port]\<rparr>
      in if port_in_use e port then Raises OSError p1
         else Returns () (p1\<lparr>listening := Some port\<rparr>))"

definition server_close :: "process \<Rightarrow> process" where
  "server_close p = p\<lparr>listening := None\<rparr>"

text \<open>The classes derived from \<open>Exception\<close>.\<close>

fun is_Exception :: "exn \<Rightarrow> bool" where
  "is_Exception OSError = True"
| "is_Exception ValueError = True"
| "is_Exception AttributeError = True"
| "is_Exception KeyboardInterrupt = False"
| "is_Exception (SystemExit n) = False"

text \<open>
  \<open>BaseServer._handle_request_noblock\<close>: the connection is accepted and a
  \<open>CustomHandler\<close> is constructed for it. An \<open>Exception\<close> from the handler is
  reported on standard error by \<open>handle_error\<close> and the loop goes on; any other
  exception is raised again.
\<close>

definition handle_request_noblock ::
  "env \<Rightarrow> string \<Rightarrow> request \<Rightarrow> process \<Rightarrow> (unit, process) result" where
  "handle_request_noblock e address rq p =
     (let r = CustomHandler (script_file e) (library e) (files e) address rq;
          p1 = p\<lparr>stdout := stdout p @ printed (state_of r),
                 connections := connections p @ [wfile (state_of r)]\<rparr>
      in case raised r of
           None \<Rightarrow> Returns () p1
         | Some x \<Rightarrow>
             if is_Exception x then Returns () (p1\<lparr>stderr := stderr p1 @ [x]\<rparr>)
             else Raises x p1)"

text \<open>
  \<open>BaseServer.serve_forever\<close> over the events that arrive. Nothing calls \<open>shutdown\<close>,
  so the loop never returns: it raises, or it is still running when the events end
  (\<open>None\<close>).
\<close>

fun serve_forever :: "env \<Rightarrow> event list \<Rightarrow> process \<Rightarrow> exn option \<times> process" where
  "serve_forever e [] p = (None, p)"
| "serve_forever e (SIGINT # evs) p = (Some KeyboardInterrupt, p)"
| "serve_forever e (Connection address rq # evs) p =
     (case handle_request_noblock e address rq p of
        Raises x p1 \<Rightarrow> (Some x, p1)
      | Returns u p1 \<Rightarrow> serve_forever e evs p1)"

subsection \<open>\<open>main\<close> (serve.py, lines 35-50)\<close>

text \<open>\<open>print(s)\<close>.\<close>

definition print :: "string \<Rightarrow> process \<Rightarrow> process" where
  "print s p = p\<lparr>stdout := stdout p @ [s]\<rparr>"

text \<open>
  The arguments of the six \<open>print\<close> calls of lines 39-44; \<open>os.getcwd()\<close> is the text
  of the working directory.
\<close>

definition banner :: "string list \<Rightarrow> string list" where
  "banner dir =
     [[CHR 0xF0, CHR 0x9F, CHR 0x9A, CHR 0x80] @ '' NeverEverLand v003 Server'',
      [CHR 0xF0, CHR 0x9F, CHR 0x93, CHR 0xA1] @ '' Serving at http://localhost:'' @ str_nat PORT,
      [CHR 0xF0, CHR 0x9F, CHR 0x93, CHR 0x81] @ '' Directory: '' @ fspath dir,
      [CHR 0xF0, CHR 0x9F, CHR 0x8E, CHR 0xAE] @ '' Open http://localhost:'' @ str_nat PORT
        @ '' in your browser'',
      [CHR 0xE2, CHR 0x8F, CHR 0xB9, CHR 0xEF, CHR 0xB8, CHR 0x8F] @ ''  Press Ctrl+C to stop'',
      replicate 50 (CHR ''-'')]"

definition shutdown_notice :: string where
  "shutdown_notice = [CHR 0x0A, CHR 0xF0, CHR 0x9F, CHR 0x9B, CHR 0x91] @ '' Server stopped''"

text \<open>
  A run of \<open>print\<close> statements, the first of which is statement \<open>k\<close> of \<open>main\<close>: an
  interrupt that arrives at a statement is raised there, before the statement prints.
\<close>

fun prints :: "nat option \<Rightarrow> nat \<Rightarrow> string list \<Rightarrow> process \<Rightarrow> (unit, process) result" where
  "prints i k [] p = Returns () p"
| "prints i k (s # ss) p =
     (if i = Some k then Raises KeyboardInterrupt p else prints i (Suc k) ss (print s p))"

text \<open>
  \<open>main\<close>. The result is the exception that leaves \<open>main\<close>, or \<open>None\<close> while the
  server is still serving at the end of the events, and the state of the process. The
  \<open>with\<close> statement closes the server when its body is left; a bind failure is raised by
  the constructor, before the body is entered.
\<close>

definition main :: "env \<Rightarrow> event list \<Rightarrow> exn option \<times> process" where
  "main e evs =
     (let p0 = \<lparr>cwd = invocation_cwd e, stdout = [], stderr = [], bind_calls = [],
                listening = None, connections = []\<rparr>
      in if sigint_at e = Some 0 then (Some KeyboardInterrupt, p0)
         else
           (let p1 = p0\<lparr>cwd := parent (script_file e)\<rparr>
            in if sigint_at e = Some 1 then (Some KeyboardInterrupt, p1)
               else
                 (case TCPServer e PORT p1 of
                    Raises x p2 \<Rightarrow> (Some x, p2)
                  | Returns u p2 \<Rightarrow>
                      (let body =
                             (case prints (sigint_at e) 2 (banner (cwd p2)) p2 of
                                Raises x p3 \<Rightarrow> (Some x, p3)
                              | Returns u p3 \<Rightarrow>
                                  (case serve_forever e evs p3 of
                                     (Some KeyboardInterrupt, p4) \<Rightarrow>
                                       (Some (SystemExit 0), print shutdown_notice p4)
                                   | other \<Rightarrow> other))
                       in case fst body of
                            None \<Rightarrow> body
                          | Some x \<Rightarrow> (Some x, server_close (snd body))))))"

text \<open>
  The script run by the interpreter (\<open>if __name__ == "__main__": main()\<close>): the exit
  status, \<open>None\<close> while the process is running. \<open>SystemExit(n)\<close> exits with status
  \<open>n\<close>; any other exception that leaves \<open>main\<close> has its traceback printed on standard
  error and gives status 1, an interrupt the status 130 of a process ended by SIGINT.
\<close>

definition script :: "env \<Rightarrow> event list \<Rightarrow> int option \<times> process" where
  "script e evs =
     (case main e evs of
        (None, p) \<Rightarrow> (None, p)
      | (Some (SystemExit n), p) \<Rightarrow> (Some n, p)
      | (Some x, p) \<Rightarrow>
          (Some (if x = KeyboardInterrupt then 130 else 1), p\<lparr>stderr := stderr p @ [x]\<rparr>))"


subsection \<open>Reading a response\<close>

text \<open>
  The three digits of the status line, when what was written to a connection starts with
  a header block: the status line is its first line, \<open>HTTP/1.0\<close>, a space, the code.
\<close>

definition status_of :: "chunk list \<Rightarrow> string option" where
  "status_of w =
     (case w of
        HeaderBlock (l # ls) # cs \<Rightarrow> Some (take 3 (drop (length protocol_version + 1) l))
      | _ \<Rightarrow> None)"

text \<open>The lines of a header block that give a content type, in either spelling.\<close>

definition content_type_lines :: "string list \<Rightarrow> string list" where
  "content_type_lines ls =
     filter (\<lambda>l. prefix ''Content-Type: '' l \<or> prefix ''Content-type: '' l) ls"

text \<open>
  What \<open>send_error\<close> writes to the connection for a code with a body, a message and an
  explanation, when the path of the request is \<open>p\<close>: the facility's status line and
  headers, then the lines that \<open>CustomHandler.end_headers\<close> adds, then the body unless
  the command is HEAD.
\<close>

definition error_response ::
  "stdlib \<Rightarrow> nat \<Rightarrow> string \<Rightarrow> string \<Rightarrow> string \<Rightarrow> bool \<Rightarrow> chunk list" where
  "error_response lib code m x p head =
     HeaderBlock
       ([protocol_version @ '' '' @ str_nat code @ '' '' @ m @ CRLF,
         ''Server: '' @ version_string lib @ CRLF,
         ''Date: '' @ date_time_string lib None @ CRLF,
         ''Connection: close'' @ CRLF,
         ''Content-Type: text/html;charset=utf-8'' @ CRLF,
         ''Content-Length: '' @ str_nat (length (error_body lib code m x)) @ CRLF]
        @ cors_lines @ (if suffix ''.js'' p then [js_line] else []) @ [CRLF])
     # (if \<not> head \<and> error_body lib code m x \<noteq> [] then [Body (error_body lib code m x)] else [])"

text \<open>The explanation that \<open>send_error\<close> takes from the table when it is given none.\<close>

definition default_explain :: "stdlib \<Rightarrow> nat \<Rightarrow> string" where
  "default_explain lib code =
     snd (case responses lib code of Some sl \<Rightarrow> sl | None \<Rightarrow> (''???'', ''???''))"

subsection \<open>Invariants of a handler\<close>

text \<open>
  The facility's own header lines never equal the line that \<open>end_headers\<close> adds for a
  \<open>.js\<close> path (\<open>clean\<close>), and every header block written so far holds the three CORS
  lines and holds the \<open>.js\<close> line exactly when the path ends in \<open>.js\<close> (\<open>block_ok\<close>).
  Unless the request is HTTP/0.9, what has been written starts with a header block
  (\<open>headed\<close>), and a method that ends the headers and returns has written something.
\<close>

fun headed :: "chunk list \<Rightarrow> bool" where
  "headed [] = True"
| "headed (HeaderBlock ls # cs) = True"
| "headed (Body b # cs) = False"

definition clean :: "handler \<Rightarrow> bool" where
  "clean h = (case headers_buffer h of None \<Rightarrow> True | Some b \<Rightarrow> js_line \<notin> set b)"

definition block_ok :: "string option \<Rightarrow> chunk \<Rightarrow> bool" where
  "block_ok po c =
     (case c of
        Body b \<Rightarrow> True
      | HeaderBlock ls \<Rightarrow>
          sublist cors_lines ls
          \<and> (js_line \<in> set ls) = (case po of None \<Rightarrow> False | Some p \<Rightarrow> suffix ''.js'' p))"

definition inv :: "handler \<Rightarrow> bool" where
  "inv h =
     (clean h \<and> list_all (block_ok (path h)) (wfile h)
      \<and> (request_version h = ''HTTP/0.9'' \<or> headed (wfile h)))"

definition same_request :: "handler \<Rightarrow> handler \<Rightarrow> bool" where
  "same_request h h' =
     (directory h' = directory h \<and> client_address h' = client_address h
      \<and> requestline h' = requestline h \<and> command h' = command h
      \<and> path h' = path h \<and> request_version h' = request_version h)"

definition prepared :: "handler \<Rightarrow> handler \<Rightarrow> bool" where
  "prepared h h' = (inv h' \<and> same_request h h')"

definition preserved :: "handler \<Rightarrow> ('v, handler) result \<Rightarrow> bool" where
  "preserved h r =
     (prepared h (state_of r)
      \<and> (raised r = None \<or> raised r = Some AttributeError \<or> raised r = Some ValueError)
      \<and> (raised r = None \<longrightarrow> request_version h = ''HTTP/0.9'' \<or> wfile (state_of r) \<noteq> []))"

subsection \<open>A sample environment\<close>

text \<open>
  A concrete standard library, file system and environment on which the definitions
  above are run: the script is \<open>/srv/v003/serve.py\<close>, its directory holds \<open>index.html\<close>
  and \<open>app.js\<close>, and the process is started in \<open>/home/dev\<close>. Of the percent escapes
  of a URL the sample library decodes \<open>%00\<close> only, and a path with a NUL in it is
  invalid in the sample file system.
\<close>

fun unquote_nul :: "string \<Rightarrow> string" where
  "unquote_nul [] = []"
| "unquote_nul (c # cs) =
     (if c = CHR ''%'' \<and> take 2 cs = ''00'' then CHR 0x00 # unquote_nul (drop 2 cs)
      else c # unquote_nul cs)"

fun split_at :: "char \<Rightarrow> string \<Rightarrow> string list" where
  "split_at c [] = [[]]"
| "split_at c (x # xs) =
     (if x = c then [] # split_at c xs
      else (case split_at c xs of w # ws \<Rightarrow> (x # w) # ws | [] \<Rightarrow> [[x]]))"

definition sample_lib :: stdlib where
  "sample_lib =
     \<lparr>responses = (\<lambda>code. if code = 200 then Some (''OK'', ''Request fulfilled, document follows'')
                           else if code = 404 then Some (''Not Found'', ''Nothing matches the given URI'')
                           else if code = 501 then Some (''Not Implemented'', ''Server does not support this operation'')
                           else None),
      version_string = ''SimpleHTTP/0.6 Python/3.11.10'',
      date_time_string = (\<lambda>t. ''Tue, 03 Nov 2026 17:26:00 GMT''),
      error_body = (\<lambda>code message explain. ''<h1>Error response</h1><p>Message: '' @ message @ ''.</p>''),
      url_words = (\<lambda>p. filter (\<lambda>w. w \<noteq> []) (split_at (CHR ''/'') (unquote_nul p))),
      url_path = (\<lambda>p. takeWhile (\<lambda>c. c \<noteq> CHR ''?'') p),
      redirect_url = (\<lambda>p. takeWhile (\<lambda>c. c \<noteq> CHR ''?'') p @ ''/'' @ dropWhile (\<lambda>c. c \<noteq> CHR ''?'') p),
      guess_type = (\<lambda>p. if suffix ''.js'' p then ''application/javascript''
                         else if suffix ''.html'' p then ''text/html'' else ''application/octet-stream''),
      listing_body = (\<lambda>p d names. ''<ul>'' @ concat names @ ''</ul>''),
      filesystem_encoding = ''utf-8'',
      repr = (\<lambda>s. [CHR 0x27] @ s @ [CHR 0x27])\<rparr>"

definition sample_fs :: filesystem where
  "sample_fs cs =
     (if list_ex (\<lambda>w. CHR 0x00 \<in> set w) cs then Invalid
      else if cs = [''srv'', ''v003''] then Dir (Some [''app.js'', ''index.html'', ''serve.py''])
      else if cs = [''srv'', ''v003'', ''index.html''] then File ''<html></html>'' 1700000000
      else if cs = [''srv'', ''v003'', ''app.js''] then File ''export {}'' 1700000000
      else Missing)"

definition sample_env :: env where
  "sample_env =
     \<lparr>script_file = [''srv'', ''v003'', ''serve.py''], invocation_cwd = [''home'', ''dev''],
      port_in_use = (\<lambda>port. False), sigint_at = None, library = sample_lib, files = sample_fs\<rparr>"

text \<open>The request \<open>command path HTTP/1.1\<close> with headers that are accepted.\<close>

definition http11 :: "string \<Rightarrow> string \<Rightarrow> request" where
  "http11 cmd p =
     Parsed \<lparr>rq_line = cmd @ '' '' @ p @ '' HTTP/1.1'', rq_command = cmd, rq_path = p,
             rq_version = ''HTTP/1.1'', rq_headers_error = None, rq_if_modified_since = None\<rparr>"


section \<open>What a handler preserves\<close>

lemma send_header_frame [simp]:
  "wfile (send_header h k v) = wfile h"
  "path (send_header h k v) = path h"
  "directory (send_header h k v) = directory h"
  "client_address (send_header h k v) = client_address h"
  "requestline (send_header h k v) = requestline h"
  "command (send_header h k v) = command h"
  "request_version (send_header h k v) = request_version h"
  "printed (send_header h k v) = printed h"
  by (simp_all add: send_header_def)

lemma log_message_frame [simp]:
  "wfile (log_message h m) = wfile h"
  "path (log_message h m) = path h"
  "directory (log_message h m) = directory h"
  "client_address (log_message h m) = client_address h"
  "requestline (log_message h m) = requestline h"
  "command (log_message h m) = command h"
  "request_version (log_message h m) = request_version h"
  "headers_buffer (log_message h m) = headers_buffer h"
  by (simp_all add: log_message_def)

lemma send_response_only_frame [simp]:
  "wfile (send_response_only lib h c m) = wfile h"
  "path (send_response_only lib h c m) = path h"
  "directory (send_response_only lib h c m) = directory h"
  "client_address (send_response_only lib h c m) = client_address h"
  "requestline (send_response_only lib h c m) = requestline h"
  "command (send_response_only lib h c m) = command h"
  "request_version (send_response_only lib h c m) = request_version h"
  by (simp_all add: send_response_only_def Let_def)

lemma send_response_frame [simp]:
  "wfile (send_response lib h c m) = wfile h"
  "path (send_response lib h c m) = path h"
  "directory (send_response lib h c m) = directory h"
  "client_address (send_response lib h c m) = client_address h"
  "requestline (send_response lib h c m) = requestline h"
  "command (send_response lib h c m) = command h"
  "request_version (send_response lib h c m) = request_version h"
  by (simp_all add: send_response_def log_request_def Let_def)

lemma clean_send_header:
  "clean h \<Longrightarrow> k @ '': '' @ v @ CRLF \<noteq> js_line \<Longrightarrow> clean (send_header h k v)"
  by (auto simp: clean_def send_header_def split: option.splits)

lemma clean_log_message [simp]: "clean (log_message h m) = clean h"
  by (simp add: clean_def)

lemma clean_send_response: "clean h \<Longrightarrow> clean (send_response lib h c m)"
  by (auto simp: clean_def send_response_def send_response_only_def send_header_def
      log_request_def js_line_def protocol_version_def Let_def split: option.splits)

lemma end_headers_eq:
  "path h = Some p \<Longrightarrow> request_version h \<noteq> ''HTTP/0.9'' \<Longrightarrow>
   end_headers h =
     Returns () (h\<lparr>headers_buffer := Some [],
                   wfile := wfile h @ [HeaderBlock ((case headers_buffer h of None \<Rightarrow> [] | Some b \<Rightarrow> b)
                      @ cors_lines @ (if suffix ''.js'' p then [js_line] else []) @ [CRLF])]\<rparr>)"
  by (simp add: end_headers_def send_header_def base_end_headers_def flush_headers_def
      cors_lines_def js_line_def Let_def)

lemma end_headers_old: "request_version h = ''HTTP/0.9'' \<Longrightarrow> path h = Some p \<Longrightarrow> end_headers h = Returns () h"
  by (simp add: end_headers_def send_header_def base_end_headers_def Let_def)

lemma end_headers_unset: "path h = None \<Longrightarrow> raised (end_headers h) = Some AttributeError \<and> wfile (state_of (end_headers h)) = wfile h"
  by (simp add: end_headers_def Let_def)

lemma same_request_refl [simp]: "same_request h h"
  by (simp add: same_request_def)

lemma js_not_cors: "js_line \<notin> set cors_lines"
  by (simp add: cors_lines_def js_line_def)

lemma js_not_CRLF: "js_line \<noteq> CRLF"
  by (simp add: js_line_def CRLF_def)

lemma block_ok_new:
  "js_line \<notin> set b \<Longrightarrow>
   block_ok (Some p) (HeaderBlock (b @ cors_lines @ (if suffix ''.js'' p then [js_line] else []) @ [CRLF]))"
  using js_not_cors js_not_CRLF by (auto simp: block_ok_def)

lemma prepared_start: "inv h \<Longrightarrow> prepared h h"
  by (simp add: prepared_def)

lemma prepared_send_header:
  "prepared h h1 \<Longrightarrow> k @ '': '' @ v @ CRLF \<noteq> js_line \<Longrightarrow> prepared h (send_header h1 k v)"
  by (auto simp: prepared_def inv_def same_request_def intro: clean_send_header)

lemma prepared_send_response: "prepared h h1 \<Longrightarrow> prepared h (send_response lib h1 c m)"
  by (auto simp: prepared_def inv_def same_request_def intro: clean_send_response)

lemma prepared_log_error: "prepared h h1 \<Longrightarrow> prepared h (log_error h1 m)"
  by (auto simp: prepared_def inv_def same_request_def log_error_def)

lemma headed_append: "w \<noteq> [] \<Longrightarrow> headed w \<Longrightarrow> headed (w @ v)"
  by (cases w rule: headed.cases) simp_all

lemma headed_snoc_block: "headed w \<Longrightarrow> headed (w @ [HeaderBlock ls])"
  by (cases w rule: headed.cases) simp_all

lemma prepared_body:
  "prepared h h1 \<Longrightarrow> request_version h = ''HTTP/0.9'' \<or> wfile h1 \<noteq> [] \<Longrightarrow>
   prepared h (h1\<lparr>wfile := wfile h1 @ [Body b]\<rparr>)"
  by (auto simp: prepared_def inv_def same_request_def clean_def block_ok_def headed_append)

lemma preserved_Returns [simp]:
  "preserved h (Returns u h1) =
     (prepared h h1 \<and> (request_version h = ''HTTP/0.9'' \<or> wfile h1 \<noteq> []))"
  by (simp add: preserved_def)

lemma preserved_Raises [simp]:
  "preserved h (Raises AttributeError h1) = prepared h h1"
  "preserved h (Raises ValueError h1) = prepared h h1"
  by (simp_all add: preserved_def)

lemma preserved_end_headers: "prepared h h1 \<Longrightarrow> preserved h (end_headers h1)"
proof (cases "path h1")
  case None
  assume "prepared h h1"
  with None show ?thesis
    by (auto simp: end_headers_def Let_def js_line_def CRLF_def intro!: prepared_send_header)
next
  case (Some p)
  assume i: "prepared h h1"
  show ?thesis
  proof (cases "request_version h1 = ''HTTP/0.9''")
    case True
    with Some i show ?thesis
      by (simp add: end_headers_old) (simp add: prepared_def same_request_def)
  next
    case False
    have c: "js_line \<notin> set (case headers_buffer h1 of None \<Rightarrow> [] | Some b \<Rightarrow> b)"
      using i by (simp add: prepared_def inv_def clean_def split: option.splits)
    have ok: "list_all (block_ok (Some p)) (wfile h1)"
      using i Some by (simp add: prepared_def inv_def)
    have hd: "headed (wfile h1)"
      using i False by (simp add: prepared_def inv_def)
    have s: "same_request h h1"
      using i by (simp add: prepared_def)
    show ?thesis
      unfolding end_headers_eq [OF Some False]
      using block_ok_new [OF c, of p] ok s Some headed_snoc_block [OF hd]
      by (simp add: prepared_def inv_def clean_def same_request_def)
  qed
qed

lemma preserved_case:
  "preserved h r \<Longrightarrow> (\<And>u h1. preserved h (Returns u h1) \<Longrightarrow> preserved h (k u h1)) \<Longrightarrow>
   preserved h (case r of Returns u h1 \<Rightarrow> k u h1 | Raises e h1 \<Rightarrow> Raises e h1)"
proof (cases r)
  case (Returns u h1)
  assume "preserved h r" "\<And>u h1. preserved h (Returns u h1) \<Longrightarrow> preserved h (k u h1)"
  with Returns show ?thesis by simp
next
  case (Raises e h1)
  assume "preserved h r"
  with Raises show ?thesis by (simp add: preserved_def)
qed

lemmas prepared_intros = prepared_send_header prepared_send_response prepared_log_error prepared_body

lemma send_error_preserved:
  "prepared h h0 \<Longrightarrow> preserved h (send_error lib h0 code message explain)"
  unfolding send_error_def Let_def split_def
  apply (rule preserved_case)
   apply (rule preserved_end_headers)
   apply (auto simp: js_line_def error_content_type_def intro!: prepared_intros split: option.splits)
  done

lemma list_directory_preserved:
  "prepared h h0 \<Longrightarrow> preserved h (list_directory lib h0 ptext listing)"
  unfolding list_directory_def Let_def
  by (auto simp: js_line_def prepared_def [of h h0] split: option.splits
      intro!: preserved_case send_error_preserved preserved_end_headers prepared_intros)

lemma send_head_file_preserved:
  "prepared h h0 \<Longrightarrow> preserved h (send_head_file lib fs ims h0 pt)"
  unfolding send_head_file_def Let_def
  by (auto simp: js_line_def split: entry.splits
      intro!: preserved_case send_error_preserved preserved_end_headers prepared_intros)

lemma send_head_preserved:
  "prepared h h0 \<Longrightarrow> preserved h (send_head lib fs ims h0)"
  unfolding send_head_def Let_def
  by (auto simp: js_line_def split: entry.splits option.splits list.splits
      intro!: preserved_case send_error_preserved preserved_end_headers prepared_intros
        send_head_file_preserved list_directory_preserved)

lemma do_GET_preserved: "prepared h h0 \<Longrightarrow> preserved h (do_GET lib fs ims h0)"
proof -
  assume p: "prepared h h0"
  have "preserved h (case send_head lib fs ims h0 of
          Returns f h1 \<Rightarrow>
            (case f of None \<Rightarrow> Returns () h1
             | Some content \<Rightarrow>
                 Returns () (if content \<noteq> [] then h1\<lparr>wfile := wfile h1 @ [Body content]\<rparr> else h1))
        | Raises e h1 \<Rightarrow> Raises e h1)"
    by (rule preserved_case [OF send_head_preserved [OF p]])
      (auto split: option.splits intro: prepared_body)
  also have "(case send_head lib fs ims h0 of
          Returns f h1 \<Rightarrow>
            (case f of None \<Rightarrow> Returns () h1
             | Some content \<Rightarrow>
                 Returns () (if content \<noteq> [] then h1\<lparr>wfile := wfile h1 @ [Body content]\<rparr> else h1))
        | Raises e h1 \<Rightarrow> Raises e h1) = do_GET lib fs ims h0"
    by (simp add: do_GET_def split: result.splits option.splits)
  finally show ?thesis .
qed

lemma do_HEAD_preserved: "prepared h h0 \<Longrightarrow> preserved h (do_HEAD lib fs ims h0)"
  unfolding do_HEAD_def
  by (auto intro!: preserved_case send_head_preserved)

lemma fresh_prepared: "wfile h = [] \<Longrightarrow> headers_buffer h = None \<Longrightarrow> prepared h h"
  by (simp add: prepared_def inv_def clean_def)

lemma preserved_prepared:
  "preserved h r \<Longrightarrow>
   prepared h (state_of r)
   \<and> (raised r = None \<or> raised r = Some AttributeError \<or> raised r = Some ValueError)"
  by (simp add: preserved_def)

lemma handle_one_request_Parsed:
  assumes "wfile h = []" "headers_buffer h = None"
  shows "preserved (h\<lparr>command := Some (rq_command r), path := Some (reduce_slashes (rq_path r)),
                      request_version := rq_version r, requestline := rq_line r\<rparr>)
           (handle_one_request lib fs (Parsed r) h)"
proof -
  have p: "prepared (h\<lparr>command := c, path := q, request_version := v, requestline := l\<rparr>)
              (h\<lparr>command := c, path := q, request_version := v, requestline := l\<rparr>)" for c q v l
    using assms by (simp add: fresh_prepared)
  show ?thesis
    unfolding handle_one_request_def request.case Let_def
    by (auto split: option.splits prod.splits
        intro!: send_error_preserved do_GET_preserved do_HEAD_preserved p)
qed

lemma handle_one_request_preserved:
  assumes "wfile h = []" "headers_buffer h = None"
  shows "\<exists>h1. prepared h1 (state_of (handle_one_request lib fs rq h))
           \<and> (raised (handle_one_request lib fs rq h) = None
               \<or> raised (handle_one_request lib fs rq h) = Some AttributeError
               \<or> raised (handle_one_request lib fs rq h) = Some ValueError)
           \<and> directory h1 = directory h \<and> client_address h1 = client_address h
           \<and> path h1 = (case rq of Parsed r \<Rightarrow> Some (reduce_slashes (rq_path r)) | _ \<Rightarrow> path h)
           \<and> (\<forall>r. rq = Parsed r \<longrightarrow> request_version h1 = rq_version r)"
proof (cases rq)
  case LineTooLong
  let ?h1 = "h\<lparr>requestline := [], request_version := [], command := Some []\<rparr>"
  have "prepared ?h1 ?h1" using assms by (simp add: fresh_prepared)
  then have "preserved ?h1 (send_error lib ?h1 414 None None)"
    by (rule send_error_preserved)
  from preserved_prepared [OF this] LineTooLong show ?thesis
    by (auto simp: handle_one_request_def intro!: exI [of _ ?h1])
next
  case NoRequest
  with assms show ?thesis
    by (auto simp: handle_one_request_def fresh_prepared intro!: exI [of _ h])
next
  case (BadRequestLine line version code message)
  let ?h1 = "h\<lparr>command := None, request_version := version, requestline := line\<rparr>"
  have "prepared ?h1 ?h1" using assms by (simp add: fresh_prepared)
  then have "preserved ?h1 (send_error lib ?h1 code (Some message) None)"
    by (rule send_error_preserved)
  from preserved_prepared [OF this] BadRequestLine show ?thesis
    by (auto simp: handle_one_request_def intro!: exI [of _ ?h1])
next
  case (Parsed r)
  let ?h1 = "h\<lparr>command := Some (rq_command r), path := Some (reduce_slashes (rq_path r)),
                request_version := rq_version r, requestline := rq_line r\<rparr>"
  have "preserved ?h1 (handle_one_request lib fs rq h)"
    unfolding Parsed using assms by (rule handle_one_request_Parsed)
  from preserved_prepared [OF this] Parsed show ?thesis
    by (auto intro!: exI [of _ ?h1])
qed

lemma CustomHandler_result:
  "inv (state_of (CustomHandler file lib fs a rq))
   \<and> directory (state_of (CustomHandler file lib fs a rq)) = parent file
   \<and> client_address (state_of (CustomHandler file lib fs a rq)) = a
   \<and> path (state_of (CustomHandler file lib fs a rq)) =
       (case rq of Parsed r \<Rightarrow> Some (reduce_slashes (rq_path r)) | _ \<Rightarrow> None)
   \<and> (raised (CustomHandler file lib fs a rq) = None
       \<or> raised (CustomHandler file lib fs a rq) = Some AttributeError
       \<or> raised (CustomHandler file lib fs a rq) = Some ValueError)
   \<and> (\<forall>r. rq = Parsed r \<longrightarrow>
         request_version (state_of (CustomHandler file lib fs a rq)) = rq_version r)"
proof -
  let ?h = "\<lparr>directory = parent file, client_address = a, requestline = [],
        command = None, path = None, request_version = [], headers_buffer = None,
        wfile = [], printed = []\<rparr>"
  from handle_one_request_preserved [of ?h lib fs rq]
  obtain h1 where "prepared h1 (state_of (handle_one_request lib fs rq ?h))"
    "raised (handle_one_request lib fs rq ?h) = None
       \<or> raised (handle_one_request lib fs rq ?h) = Some AttributeError
       \<or> raised (handle_one_request lib fs rq ?h) = Some ValueError"
    "directory h1 = parent file" "client_address h1 = a"
    "path h1 = (case rq of Parsed r \<Rightarrow> Some (reduce_slashes (rq_path r)) | _ \<Rightarrow> None)"
    "\<forall>r. rq = Parsed r \<longrightarrow> request_version h1 = rq_version r"
    by (auto split: request.splits)
  then show ?thesis
    by (auto simp: CustomHandler_def handle_def prepared_def same_request_def)
qed






section \<open>Startup and shutdown\<close>


lemma length_banner: "length (banner d) = 6"
  by (simp add: banner_def)

lemma notice_not_in_banner: "shutdown_notice \<notin> set (banner d)"
proof -
  have "length shutdown_notice \<noteq> length (replicate 50 (CHR ''-''))"
    by (simp add: shutdown_notice_def)
  then have "shutdown_notice \<noteq> replicate 50 (CHR ''-'')"
    by metis
  then show ?thesis
    by (simp add: banner_def) (simp add: shutdown_notice_def)
qed


lemma prints_None: "prints None k ss p = Returns () (p\<lparr>stdout := stdout p @ ss\<rparr>)"
  by (induction ss arbitrary: k p) (simp_all add: print_def)

lemma prints_Some:
  "k \<le> i \<Longrightarrow> i < k + length ss \<Longrightarrow>
   prints (Some i) k ss p = Raises KeyboardInterrupt (p\<lparr>stdout := stdout p @ take (i - k) ss\<rparr>)"
proof (induction ss arbitrary: k p)
  case Nil
  then show ?case by simp
next
  case (Cons s ss)
  show ?case
  proof (cases "i = k")
    case True
    then show ?thesis by simp
  next
    case False
    with Cons.prems have "Suc k \<le> i" "i < Suc k + length ss" by simp_all
    from Cons.IH [OF this] False Cons.prems show ?thesis
      by (simp add: print_def take_Cons' Suc_diff_Suc)
  qed
qed

text \<open>
  C3. When port 8000 is already bound at startup, the constructor's \<open>OSError\<close> leaves
  \<open>main\<close> uncaught: the process exits with status 1 and the traceback of the error on
  standard error, after exactly one \<open>bind\<close> call, on port 8000; nothing is printed to
  standard output, no socket is left listening and no connection is served. (An
  interrupt during the two statements up to the constructor would come first.)
\<close>

theorem bind_failure_is_fatal:
  assumes "port_in_use e PORT" "sigint_at e \<noteq> Some 0" "sigint_at e \<noteq> Some 1"
  shows "script e evs =
           (Some 1, \<lparr>cwd = parent (script_file e), stdout = [], stderr = [OSError],
                     bind_calls = [8000], listening = None, connections = []\<rparr>)"
  using assms by (simp add: script_def main_def TCPServer_def PORT_def)

theorem bind_failure_is_fatal_witness:
  "port_in_use (sample_env\<lparr>port_in_use := (\<lambda>port. port = 8000)\<rparr>) PORT
   \<and> script (sample_env\<lparr>port_in_use := (\<lambda>port. port = 8000)\<rparr>) [SIGINT] =
           (Some 1, \<lparr>cwd = [''srv'', ''v003''], stdout = [], stderr = [OSError],
                     bind_calls = [8000], listening = None, connections = []\<rparr>)"
  using bind_failure_is_fatal [of "sample_env\<lparr>port_in_use := (\<lambda>port. port = 8000)\<rparr>" "[SIGINT]"]
  by (simp add: sample_env_def PORT_def parent_def)

text \<open>
  C10. The \<open>try\<close> statement encloses \<open>serve_forever\<close> only. An interrupt that arrives
  during one of the eight statements before it (\<open>os.chdir\<close>, the constructor, the six
  \<open>print\<close> calls of the banner) leaves \<open>main\<close> as an uncaught \<open>KeyboardInterrupt\<close>:
  the shutdown notice is not printed, the traceback goes to standard error and the status
  is that of a process ended by SIGINT, not 0. (From the third statement on, the
  interrupt can only arrive if the bind has succeeded.)
\<close>

theorem interrupt_before_serving_is_uncaught:
  assumes "sigint_at e = Some k" "k < 8" "2 \<le> k \<longrightarrow> \<not> port_in_use e PORT"
  shows "fst (main e evs) = Some KeyboardInterrupt
         \<and> fst (script e evs) = Some 130
         \<and> shutdown_notice \<notin> set (stdout (snd (script e evs)))
         \<and> stderr (snd (script e evs)) = [KeyboardInterrupt]
         \<and> listening (snd (script e evs)) = None
         \<and> connections (snd (script e evs)) = []"
proof -
  consider "k = 0" | "k = 1" | "2 \<le> k"
    by linarith
  then show ?thesis
  proof cases
    case 1
    with assms show ?thesis by (simp add: script_def main_def)
  next
    case 2
    with assms show ?thesis by (simp add: script_def main_def)
  next
    case 3
    with assms have p: "\<not> port_in_use e PORT" by simp
    have "k < 2 + length (banner d)" for d
      using assms(2) by (simp add: length_banner)
    from prints_Some [OF 3 this] have
      pr: "prints (Some k) 2 (banner d) p =
             Raises KeyboardInterrupt (p\<lparr>stdout := stdout p @ take (k - 2) (banner d)\<rparr>)" for d p .
    have n: "shutdown_notice \<notin> set (take (k - 2) (banner d))" for d
      using notice_not_in_banner by (meson in_set_takeD)
    from assms(1) 3 p show ?thesis
      by (simp add: script_def main_def TCPServer_def pr server_close_def n)
  qed
qed

theorem interrupt_before_serving_is_uncaught_witness:
  "sigint_at (sample_env\<lparr>sigint_at := Some 4\<rparr>) = Some 4 \<and> (4::nat) < 8
   \<and> \<not> port_in_use (sample_env\<lparr>sigint_at := Some 4\<rparr>) PORT
   \<and> fst (main (sample_env\<lparr>sigint_at := Some 4\<rparr>) [SIGINT]) = Some KeyboardInterrupt
   \<and> fst (script (sample_env\<lparr>sigint_at := Some 4\<rparr>) [SIGINT]) = Some 130
   \<and> shutdown_notice \<notin> set (stdout (snd (script (sample_env\<lparr>sigint_at := Some 4\<rparr>) [SIGINT])))"
  using interrupt_before_serving_is_uncaught [of "sample_env\<lparr>sigint_at := Some 4\<rparr>" 4 "[SIGINT]"]
  by (simp add: sample_env_def)

section \<open>The serve loop\<close>

lemma handle_request_noblock_eq:
  "handle_request_noblock e a rq p =
     Returns ()
       (p\<lparr>stdout := stdout p @ printed (state_of (CustomHandler (script_file e) (library e) (files e) a rq)),
          connections := connections p @ [wfile (state_of (CustomHandler (script_file e) (library e) (files e) a rq))],
          stderr := stderr p @ (case raised (CustomHandler (script_file e) (library e) (files e) a rq) of
                                  None \<Rightarrow> [] | Some x \<Rightarrow> [x])\<rparr>)"
  using CustomHandler_result [of "script_file e" "library e" "files e" a rq]
  by (auto simp: handle_request_noblock_def Let_def)

lemma serve_forever_frame:
  "cwd (snd (serve_forever e evs p)) = cwd p
   \<and> listening (snd (serve_forever e evs p)) = listening p
   \<and> bind_calls (snd (serve_forever e evs p)) = bind_calls p"
  by (induction e evs p rule: serve_forever.induct) (simp_all add: handle_request_noblock_eq)

lemma serve_forever_outcome:
  "fst (serve_forever e evs p) = (if SIGINT \<in> set evs then Some KeyboardInterrupt else None)"
  by (induction e evs p rule: serve_forever.induct) (simp_all add: handle_request_noblock_eq)

lemma serve_forever_interrupt:
  "SIGINT \<notin> set pre \<Longrightarrow>
   serve_forever e (pre @ SIGINT # post) p = (Some KeyboardInterrupt, snd (serve_forever e pre p))"
  by (induction e pre p rule: serve_forever.induct) (simp_all add: handle_request_noblock_eq)




text \<open>The state in which \<open>main\<close> enters \<open>serve_forever\<close>.\<close>

lemma main_serving:
  assumes "\<not> port_in_use e PORT" "sigint_at e = None"
  shows "main e evs =
     (let p = \<lparr>cwd = parent (script_file e), stdout = banner (parent (script_file e)), stderr = [],
                bind_calls = [PORT], listening = Some PORT, connections = []\<rparr>
      in if SIGINT \<in> set evs
         then (Some (SystemExit 0), server_close (print shutdown_notice (snd (serve_forever e evs p))))
         else (None, snd (serve_forever e evs p)))"
proof -
  let ?p = "\<lparr>cwd = parent (script_file e), stdout = banner (parent (script_file e)), stderr = [],
                bind_calls = [PORT], listening = Some PORT, connections = []\<rparr>"
  obtain x q where sf: "serve_forever e evs ?p = (x, q)"
    by (cases "serve_forever e evs ?p")
  with serve_forever_outcome [of e evs ?p]
  have x: "x = (if SIGINT \<in> set evs then Some KeyboardInterrupt else None)" by simp
  show ?thesis
    using assms by (simp add: main_def TCPServer_def prints_None Let_def sf x)
qed



lemma send_error_block:
  assumes "path h = Some p" "request_version h \<noteq> ''HTTP/0.9''" "headers_buffer h = None"
    "200 \<le> code" "code \<notin> {204, 205, 304}"
  shows "wfile (state_of (send_error lib h code (Some m) (Some x))) =
           wfile h @
           HeaderBlock
             ([protocol_version @ '' '' @ str_nat code @ '' '' @ m @ CRLF,
               ''Server: '' @ version_string lib @ CRLF,
               ''Date: '' @ date_time_string lib None @ CRLF,
               ''Connection: close'' @ CRLF,
               ''Content-Type: text/html;charset=utf-8'' @ CRLF,
               ''Content-Length: '' @ str_nat (length (error_body lib code m x)) @ CRLF]
              @ cors_lines @ (if suffix ''.js'' p then [js_line] else []) @ [CRLF])
           # (if command h \<noteq> Some ''HEAD'' \<and> error_body lib code m x \<noteq> []
              then [Body (error_body lib code m x)] else [])"
    and "raised (send_error lib h code (Some m) (Some x)) = None"
proof -
  define h4 where "h4 =
    send_header (send_header (send_header (send_response lib
      (log_error h (''code '' @ str_nat code @ '', message '' @ m)) code (Some m))
      ''Connection'' ''close'') ''Content-Type'' error_content_type)
      ''Content-Length'' (str_nat (length (error_body lib code m x)))"
  have p4: "path h4 = Some p" and v4: "request_version h4 \<noteq> ''HTTP/0.9''"
    and w4: "wfile h4 = wfile h" and c4: "command h4 = command h"
    using assms by (simp_all add: h4_def log_error_def)
  have b4: "headers_buffer h4 = Some
             [protocol_version @ '' '' @ str_nat code @ '' '' @ m @ CRLF,
               ''Server: '' @ version_string lib @ CRLF,
               ''Date: '' @ date_time_string lib None @ CRLF,
               ''Connection: close'' @ CRLF,
               ''Content-Type: text/html;charset=utf-8'' @ CRLF,
               ''Content-Length: '' @ str_nat (length (error_body lib code m x)) @ CRLF]"
    using assms
    by (simp add: h4_def send_header_def send_response_def send_response_only_def log_request_def
        log_error_def log_message_def error_content_type_def Let_def)
  have se: "send_error lib h code (Some m) (Some x) =
    (case end_headers h4 of
       Raises e h5 \<Rightarrow> Raises e h5
     | Returns u h5 \<Rightarrow>
         if command h5 \<noteq> Some ''HEAD'' \<and> error_body lib code m x \<noteq> []
         then Returns () (h5\<lparr>wfile := wfile h5 @ [Body (error_body lib code m x)]\<rparr>)
         else Returns () h5)"
    using assms(4,5) by (simp add: send_error_def h4_def Let_def split_def split: result.splits)
  show "wfile (state_of (send_error lib h code (Some m) (Some x))) =
           wfile h @
           HeaderBlock
             ([protocol_version @ '' '' @ str_nat code @ '' '' @ m @ CRLF,
               ''Server: '' @ version_string lib @ CRLF,
               ''Date: '' @ date_time_string lib None @ CRLF,
               ''Connection: close'' @ CRLF,
               ''Content-Type: text/html;charset=utf-8'' @ CRLF,
               ''Content-Length: '' @ str_nat (length (error_body lib code m x)) @ CRLF]
              @ cors_lines @ (if suffix ''.js'' p then [js_line] else []) @ [CRLF])
           # (if command h \<noteq> Some ''HEAD'' \<and> error_body lib code m x \<noteq> []
              then [Body (error_body lib code m x)] else [])"
    unfolding se end_headers_eq [OF p4 v4] by (simp add: b4 w4 c4)
  show "raised (send_error lib h code (Some m) (Some x)) = None"
    unfolding se end_headers_eq [OF p4 v4] by simp
qed

lemma send_error_default_explain:
  "send_error lib h code m None =
     send_error lib h code m
       (Some (snd (case responses lib code of Some sl \<Rightarrow> sl | None \<Rightarrow> (''???'', ''???''))))"
  by (simp add: send_error_def split_def Let_def)

lemma send_error_response:
  assumes "path h = Some p" "request_version h \<noteq> ''HTTP/0.9''" "headers_buffer h = None"
    "200 \<le> code" "code \<notin> {204, 205, 304}"
  shows "wfile (state_of (send_error lib h code (Some m) None)) =
           wfile h @ error_response lib code m (default_explain lib code) p (command h = Some ''HEAD'')"
    and "raised (send_error lib h code (Some m) None) = None"
  using send_error_block [OF assms, of lib m "default_explain lib code"]
  by (simp_all add: send_error_default_explain error_response_def default_explain_def)

lemma send_head_missing:
  assumes "path h = Some p" "fs (fst (translate_path lib (directory h) p)) = Missing"
  shows "send_head lib fs ims h =
           (case send_error lib h 404 (Some ''File not found'') None of
              Raises e h1 \<Rightarrow> Raises e h1
            | Returns u h1 \<Rightarrow> Returns None h1)"
  using assms by (simp add: send_head_def send_head_file_def Let_def)

lemma missing_file_response:
  assumes "rq_command r = ''GET'' \<or> rq_command r = ''HEAD''" "rq_headers_error r = None"
    "rq_version r \<noteq> ''HTTP/0.9''"
    "fs (fst (translate_path lib (parent file) (reduce_slashes (rq_path r)))) = Missing"
  shows "wfile (state_of (CustomHandler file lib fs a (Parsed r))) =
           error_response lib 404 ''File not found'' (default_explain lib 404)
             (reduce_slashes (rq_path r)) (rq_command r = ''HEAD'')"
    and "raised (CustomHandler file lib fs a (Parsed r)) = None"
proof -
  define h1 where "h1 = \<lparr>directory = parent file, client_address = a, requestline = rq_line r,
        command = Some (rq_command r), path = Some (reduce_slashes (rq_path r)),
        request_version = rq_version r, headers_buffer = None, wfile = [], printed = []\<rparr>"
  have a1: "path h1 = Some (reduce_slashes (rq_path r))" "request_version h1 \<noteq> ''HTTP/0.9''"
    "headers_buffer h1 = None" "(200::nat) \<le> 404" "(404::nat) \<notin> {204, 205, 304}"
    using assms(3) by (simp_all add: h1_def)
  have m: "fs (fst (translate_path lib (directory h1) (reduce_slashes (rq_path r)))) = Missing"
    using assms(4) by (simp add: h1_def)
  have sh: "send_head lib fs ims h1 =
           (case send_error lib h1 404 (Some ''File not found'') None of
              Raises e h2 \<Rightarrow> Raises e h2
            | Returns u h2 \<Rightarrow> Returns None h2)" for ims
    using a1(1) m by (rule send_head_missing)
  note se = send_error_response [OF a1, of lib "''File not found''"]
  have c: "CustomHandler file lib fs a (Parsed r) =
             (if rq_command r = ''GET'' then do_GET lib fs (rq_if_modified_since r) h1
              else do_HEAD lib fs (rq_if_modified_since r) h1)"
    using assms(1,2) by (auto simp: CustomHandler_def handle_def handle_one_request_def h1_def Let_def)
  have w1: "wfile h1 = []" "command h1 = Some (rq_command r)" by (simp_all add: h1_def)
  show "wfile (state_of (CustomHandler file lib fs a (Parsed r))) =
           error_response lib 404 ''File not found'' (default_explain lib 404)
             (reduce_slashes (rq_path r)) (rq_command r = ''HEAD'')"
    using se assms(1) unfolding c do_GET_def do_HEAD_def sh
    by (cases "send_error lib h1 404 (Some ''File not found'') None") (auto simp: w1)
  show "raised (CustomHandler file lib fs a (Parsed r)) = None"
    using se assms(1) unfolding c do_GET_def do_HEAD_def sh
    by (cases "send_error lib h1 404 (Some ''File not found'') None") (auto simp: w1)
qed

section \<open>Responses\<close>

lemma suffix_js_eval [simp]: "suffix ''.js'' ''/missing.js''" "\<not> suffix ''.js'' ''/app.js?v=1''"
  by (simp_all add: suffix_to_prefix)

lemma sample_translate:
  "translate_path sample_lib [''srv'', ''v003''] ''/missing.js'' = ([''srv'', ''v003'', ''missing.js''], False)"
  "translate_path sample_lib [''srv'', ''v003''] ''/missing'' = ([''srv'', ''v003'', ''missing''], False)"
  "translate_path sample_lib [''srv'', ''v003''] ''/app.js?v=1'' = ([''srv'', ''v003'', ''app.js''], False)"
  by (simp_all add: translate_path_def sample_lib_def rstrip_def isspace_def suffix_to_prefix)

lemma sample_run:
  "connections (snd (main sample_env [Connection a rq])) =
     [wfile (state_of (CustomHandler [''srv'', ''v003'', ''serve.py''] sample_lib sample_fs a rq))]"
proof -
  have "\<not> port_in_use sample_env PORT" "sigint_at sample_env = None"
    by (simp_all add: sample_env_def)
  from main_serving [OF this] show ?thesis
    by (simp add: Let_def handle_request_noblock_eq) (simp add: sample_env_def)
qed

lemma sample_missing_js:
  "wfile (state_of (CustomHandler [''srv'', ''v003'', ''serve.py''] sample_lib sample_fs a
      (http11 ''GET'' ''/missing.js''))) =
   [HeaderBlock
      ([''HTTP/1.0 404 File not found'' @ CRLF,
        ''Server: SimpleHTTP/0.6 Python/3.11.10'' @ CRLF,
        ''Date: Tue, 03 Nov 2026 17:26:00 GMT'' @ CRLF,
        ''Connection: close'' @ CRLF,
        ''Content-Type: text/html;charset=utf-8'' @ CRLF,
        ''Content-Length: 54'' @ CRLF]
       @ cors_lines @ [js_line, CRLF]),
    Body ''<h1>Error response</h1><p>Message: File not found.</p>'']"
proof -
  have "wfile (state_of (CustomHandler [''srv'', ''v003'', ''serve.py''] sample_lib sample_fs a
      (http11 ''GET'' ''/missing.js''))) =
    error_response sample_lib 404 ''File not found'' (default_explain sample_lib 404) ''/missing.js'' False"
    unfolding http11_def
    by (subst missing_file_response)
      (simp_all add: parent_def reduce_slashes_def sample_translate sample_fs_def)
  also have "\<dots> = [HeaderBlock
      ([''HTTP/1.0 404 File not found'' @ CRLF,
        ''Server: SimpleHTTP/0.6 Python/3.11.10'' @ CRLF,
        ''Date: Tue, 03 Nov 2026 17:26:00 GMT'' @ CRLF,
        ''Connection: close'' @ CRLF,
        ''Content-Type: text/html;charset=utf-8'' @ CRLF,
        ''Content-Length: 54'' @ CRLF]
       @ cors_lines @ [js_line, CRLF]),
    Body ''<h1>Error response</h1><p>Message: File not found.</p>'']"
    by (simp add: error_response_def sample_lib_def protocol_version_def str_nat.simps)
  finally show ?thesis .
qed



lemma sample_translate_app:
  "translate_path sample_lib [''srv'', ''v003''] ''/app.js'' = ([''srv'', ''v003'', ''app.js''], False)"
  by (simp add: translate_path_def sample_lib_def rstrip_def isspace_def suffix_to_prefix)





lemma status_of_error_response: "status_of (error_response lib code m x p head) = Some (take 3 (str_nat code @ '' '' @ m @ CRLF))"
  by (simp add: status_of_def error_response_def protocol_version_def)

lemma str_nat_codes: "str_nat 404 = ''404''" "str_nat 501 = ''501''" "str_nat 200 = ''200''"
  by (simp_all add: str_nat.simps)

lemma found_file_response:
  assumes "rq_command r = ''GET''" "rq_headers_error r = None" "rq_if_modified_since r = None"
    "rq_version r \<noteq> ''HTTP/0.9''"
    "translate_path lib (parent file) (reduce_slashes (rq_path r)) = (cs, False)"
    "\<not> suffix ''/'' (fspath cs)"
    "fs cs = File content mtime" "content \<noteq> []"
  shows "wfile (state_of (CustomHandler file lib fs a (Parsed r))) =
           [HeaderBlock
              ([protocol_version @ '' '' @ str_nat 200 @ '' ''
                  @ (case responses lib 200 of Some (short, long) \<Rightarrow> short | None \<Rightarrow> []) @ CRLF,
                ''Server: '' @ version_string lib @ CRLF,
                ''Date: '' @ date_time_string lib None @ CRLF,
                ''Content-type: '' @ guess_type lib (fspath cs) @ CRLF,
                ''Content-Length: '' @ str_nat (length content) @ CRLF,
                ''Last-Modified: '' @ date_time_string lib (Some mtime) @ CRLF]
               @ cors_lines
               @ (if suffix ''.js'' (reduce_slashes (rq_path r)) then [js_line] else []) @ [CRLF]),
            Body content]"
proof -
  define h1 where "h1 = \<lparr>directory = parent file, client_address = a, requestline = rq_line r,
        command = Some (rq_command r), path = Some (reduce_slashes (rq_path r)),
        request_version = rq_version r, headers_buffer = None, wfile = [], printed = []\<rparr>"
  define h4 where "h4 =
    send_header (send_header (send_header (send_response lib h1 200 None)
      ''Content-type'' (guess_type lib (fspath cs)))
      ''Content-Length'' (str_nat (length content)))
      ''Last-Modified'' (date_time_string lib (Some mtime))"
  have p4: "path h4 = Some (reduce_slashes (rq_path r))" and v4: "request_version h4 \<noteq> ''HTTP/0.9''"
    and w4: "wfile h4 = []"
    using assms(4) by (simp_all add: h4_def h1_def)
  have b4: "headers_buffer h4 = Some
             [protocol_version @ '' '' @ str_nat 200 @ '' ''
                  @ (case responses lib 200 of Some (short, long) \<Rightarrow> short | None \<Rightarrow> []) @ CRLF,
               ''Server: '' @ version_string lib @ CRLF,
               ''Date: '' @ date_time_string lib None @ CRLF,
               ''Content-type: '' @ guess_type lib (fspath cs) @ CRLF,
               ''Content-Length: '' @ str_nat (length content) @ CRLF,
               ''Last-Modified: '' @ date_time_string lib (Some mtime) @ CRLF]"
    using assms(4)
    by (simp add: h4_def h1_def send_header_def send_response_def send_response_only_def
        log_request_def log_message_def Let_def)
  note ns = assms(6)
  have sh: "send_head lib fs None h1 =
              (case end_headers h4 of Raises e h5 \<Rightarrow> Raises e h5 | Returns u h5 \<Rightarrow> Returns (Some content) h5)"
    using assms(5,7) ns
    by (simp add: send_head_def send_head_file_def h1_def h4_def Let_def path_text_def)
  have c: "CustomHandler file lib fs a (Parsed r) = do_GET lib fs None h1"
    using assms(1,2,3) by (simp add: CustomHandler_def handle_def handle_one_request_def h1_def Let_def)
  show ?thesis
    unfolding c do_GET_def sh end_headers_eq [OF p4 v4]
    using assms(8) by (simp add: b4 w4)
qed


lemma sample_app_js:
  "wfile (state_of (CustomHandler [''srv'', ''v003'', ''serve.py''] sample_lib sample_fs a
      (http11 ''GET'' ''/app.js?v=1''))) =
   [HeaderBlock
      ([''HTTP/1.0 200 OK'' @ CRLF,
        ''Server: SimpleHTTP/0.6 Python/3.11.10'' @ CRLF,
        ''Date: Tue, 03 Nov 2026 17:26:00 GMT'' @ CRLF,
        ''Content-type: application/javascript'' @ CRLF,
        ''Content-Length: 9'' @ CRLF,
        ''Last-Modified: Tue, 03 Nov 2026 17:26:00 GMT'' @ CRLF]
       @ cors_lines @ [CRLF]),
    Body ''export {}'']"
proof -
  have "wfile (state_of (CustomHandler [''srv'', ''v003'', ''serve.py''] sample_lib sample_fs a
      (http11 ''GET'' ''/app.js?v=1''))) =
    [HeaderBlock
      ([protocol_version @ '' '' @ str_nat 200 @ '' ''
          @ (case responses sample_lib 200 of Some (short, long) \<Rightarrow> short | None \<Rightarrow> []) @ CRLF,
        ''Server: '' @ version_string sample_lib @ CRLF,
        ''Date: '' @ date_time_string sample_lib None @ CRLF,
        ''Content-type: '' @ guess_type sample_lib (fspath [''srv'', ''v003'', ''app.js'']) @ CRLF,
        ''Content-Length: '' @ str_nat (length ''export {}'') @ CRLF,
        ''Last-Modified: '' @ date_time_string sample_lib (Some 1700000000) @ CRLF]
       @ cors_lines @ [CRLF]),
     Body ''export {}'']"
    unfolding http11_def
    by (subst found_file_response [where cs = "[''srv'', ''v003'', ''app.js'']"
          and content = "''export {}''" and mtime = 1700000000])
      (simp_all add: parent_def reduce_slashes_def sample_translate sample_fs_def fspath_def
        suffix_to_prefix)
  also have "\<dots> =
    [HeaderBlock
      ([''HTTP/1.0 200 OK'' @ CRLF,
        ''Server: SimpleHTTP/0.6 Python/3.11.10'' @ CRLF,
        ''Date: Tue, 03 Nov 2026 17:26:00 GMT'' @ CRLF,
        ''Content-type: application/javascript'' @ CRLF,
        ''Content-Length: 9'' @ CRLF,
        ''Last-Modified: Tue, 03 Nov 2026 17:26:00 GMT'' @ CRLF]
       @ cors_lines @ [CRLF]),
     Body ''export {}'']"
    by (simp add: sample_lib_def protocol_version_def str_nat.simps fspath_def suffix_to_prefix)
  finally show ?thesis .
qed

text \<open>
  A path that cannot be a file name (a NUL in it), requested with GET or HEAD:
  \<open>os.path.isdir\<close> is false, \<open>open\<close> raises \<open>ValueError\<close>, and \<open>send_head\<close> catches
  \<open>OSError\<close> only. Nothing is sent.
\<close>

lemma invalid_path_response:
  assumes "rq_command r = ''GET'' \<or> rq_command r = ''HEAD''" "rq_headers_error r = None"
    "translate_path lib (parent file) (reduce_slashes (rq_path r)) = (cs, False)"
    "\<not> suffix ''/'' (fspath cs)" "fs cs = Invalid"
  shows "CustomHandler file lib fs a (Parsed r) =
           Raises ValueError
             \<lparr>directory = parent file, client_address = a, requestline = rq_line r,
              command = Some (rq_command r), path = Some (reduce_slashes (rq_path r)),
              request_version = rq_version r, headers_buffer = None, wfile = [], printed = []\<rparr>"
proof -
  define h1 where "h1 = \<lparr>directory = parent file, client_address = a, requestline = rq_line r,
        command = Some (rq_command r), path = Some (reduce_slashes (rq_path r)),
        request_version = rq_version r, headers_buffer = None, wfile = [], printed = []\<rparr>"
  have sh: "send_head lib fs ims h1 = Raises ValueError h1" for ims
    using assms(3,4,5)
    by (simp add: send_head_def send_head_file_def h1_def Let_def path_text_def)
  have c: "CustomHandler file lib fs a (Parsed r) =
             (if rq_command r = ''GET'' then do_GET lib fs (rq_if_modified_since r) h1
              else do_HEAD lib fs (rq_if_modified_since r) h1)"
    using assms(1,2) by (auto simp: CustomHandler_def handle_def handle_one_request_def h1_def Let_def)
  show ?thesis
    unfolding c do_GET_def do_HEAD_def sh h1_def [symmetric] by simp
qed

lemma sample_translate_nul:
  "translate_path sample_lib [''srv'', ''v003''] ''/a%00b'' =
     ([''srv'', ''v003'', [CHR ''a'', CHR 0x00, CHR ''b'']], False)"
  by (simp add: translate_path_def sample_lib_def rstrip_def isspace_def suffix_to_prefix)

lemma sample_nul:
  "CustomHandler [''srv'', ''v003'', ''serve.py''] sample_lib sample_fs a (http11 ''GET'' ''/a%00b'') =
     Raises ValueError
       \<lparr>directory = [''srv'', ''v003''], client_address = a, requestline = ''GET /a%00b HTTP/1.1'',
        command = Some ''GET'', path = Some ''/a%00b'',
        request_version = ''HTTP/1.1'', headers_buffer = None, wfile = [], printed = []\<rparr>"
  unfolding http11_def
  by (subst invalid_path_response [where cs = "[''srv'', ''v003'', [CHR ''a'', CHR 0x00, CHR ''b'']]"])
    (simp_all add: parent_def reduce_slashes_def sample_translate_nul sample_fs_def fspath_def
      suffix_to_prefix)

text \<open>
  C6, as stated, fails: no file can be at a path with a NUL in it, and a GET request for
  one gets no response at all. In the sample environment \<open>GET /a%00b HTTP/1.1\<close> makes
  the handler raise \<open>ValueError\<close> before anything is written: the connection is closed
  with nothing sent, so no status 404. The exception stays in the handler's connection:
  the serve loop goes on.
\<close>

theorem not_found_for_every_request_counterexample:
  "sample_fs (fst (translate_path sample_lib (parent [''srv'', ''v003'', ''serve.py''])
      (reduce_slashes ''/a%00b''))) = Invalid
   \<and> raised (CustomHandler [''srv'', ''v003'', ''serve.py''] sample_lib sample_fs
        ''127.0.0.1'' (http11 ''GET'' ''/a%00b'')) = Some ValueError
   \<and> connections (snd (main sample_env [Connection ''127.0.0.1'' (http11 ''GET'' ''/a%00b'')])) = [[]]
   \<and> status_of (hd (connections (snd (main sample_env
        [Connection ''127.0.0.1'' (http11 ''GET'' ''/a%00b'')])))) \<noteq> Some ''404''"
  by (simp add: sample_run sample_nul status_of_def
      parent_def reduce_slashes_def sample_translate_nul sample_fs_def)

text \<open>
  C6, amended. For every GET or HEAD request with an HTTP/1.x request line and accepted
  headers whose path translates to a file name under the root directory at which
  nothing can be opened, the response has status 404 and the handler raises nothing.
  No request of any kind ends the process: handling a connection never raises out of
  the serve loop, which is still running after any sequence of connections.
\<close>

theorem not_found_for_missing_file:
  assumes "rq_command r = ''GET'' \<or> rq_command r = ''HEAD''" "rq_headers_error r = None"
    "rq_version r \<noteq> ''HTTP/0.9''"
    "files e (fst (translate_path (library e) (parent (script_file e))
       (reduce_slashes (rq_path r)))) = Missing"
  shows "status_of (wfile (state_of
           (CustomHandler (script_file e) (library e) (files e) a (Parsed r)))) = Some ''404''
         \<and> raised (CustomHandler (script_file e) (library e) (files e) a (Parsed r)) = None
         \<and> raised (handle_request_noblock e a' rq p) = None
         \<and> (SIGINT \<notin> set evs \<longrightarrow> fst (serve_forever e evs p) = None)"
  using missing_file_response [of r "files e" "library e" "script_file e" a] assms
  by (simp add: status_of_error_response str_nat_codes handle_request_noblock_eq
      serve_forever_outcome)

theorem not_found_for_missing_file_witness:
  "status_of (wfile (state_of
     (CustomHandler (script_file sample_env) (library sample_env) (files sample_env) ''127.0.0.1''
        (http11 ''GET'' ''/missing.js'')))) = Some ''404''
   \<and> fst (serve_forever sample_env
          [Connection ''127.0.0.1'' (http11 ''GET'' ''/missing.js'')] (snd (main sample_env []))) = None"
  using not_found_for_missing_file [of
      "\<lparr>rq_line = ''GET /missing.js HTTP/1.1'', rq_command = ''GET'', rq_path = ''/missing.js'',
        rq_version = ''HTTP/1.1'', rq_headers_error = None, rq_if_modified_since = None\<rparr>"
      sample_env "''127.0.0.1''" "''127.0.0.1''" NoRequest "snd (main sample_env [])"
      "[Connection ''127.0.0.1'' (http11 ''GET'' ''/missing.js'')]"]
  by (simp add: http11_def sample_env_def parent_def reduce_slashes_def sample_translate sample_fs_def)

lemma sample_app_js_plain:
  "wfile (state_of (CustomHandler [''srv'', ''v003'', ''serve.py''] sample_lib sample_fs a
      (http11 ''GET'' ''/app.js''))) =
   [HeaderBlock
      ([''HTTP/1.0 200 OK'' @ CRLF,
        ''Server: SimpleHTTP/0.6 Python/3.11.10'' @ CRLF,
        ''Date: Tue, 03 Nov 2026 17:26:00 GMT'' @ CRLF,
        ''Content-type: application/javascript'' @ CRLF,
        ''Content-Length: 9'' @ CRLF,
        ''Last-Modified: Tue, 03 Nov 2026 17:26:00 GMT'' @ CRLF]
       @ cors_lines @ [js_line, CRLF]),
    Body ''export {}'']"
proof -
  have "wfile (state_of (CustomHandler [''srv'', ''v003'', ''serve.py''] sample_lib sample_fs a
      (http11 ''GET'' ''/app.js''))) =
    [HeaderBlock
      ([protocol_version @ '' '' @ str_nat 200 @ '' ''
          @ (case responses sample_lib 200 of Some (short, long) \<Rightarrow> short | None \<Rightarrow> []) @ CRLF,
        ''Server: '' @ version_string sample_lib @ CRLF,
        ''Date: '' @ date_time_string sample_lib None @ CRLF,
        ''Content-type: '' @ guess_type sample_lib (fspath [''srv'', ''v003'', ''app.js'']) @ CRLF,
        ''Content-Length: '' @ str_nat (length ''export {}'') @ CRLF,
        ''Last-Modified: '' @ date_time_string sample_lib (Some 1700000000) @ CRLF]
       @ cors_lines @ [js_line, CRLF]),
     Body ''export {}'']"
    unfolding http11_def
    by (subst found_file_response [where cs = "[''srv'', ''v003'', ''app.js'']"
          and content = "''export {}''" and mtime = 1700000000])
      (simp_all add: parent_def reduce_slashes_def sample_translate_app sample_fs_def fspath_def
        suffix_to_prefix)
  also have "\<dots> =
    [HeaderBlock
      ([''HTTP/1.0 200 OK'' @ CRLF,
        ''Server: SimpleHTTP/0.6 Python/3.11.10'' @ CRLF,
        ''Date: Tue, 03 Nov 2026 17:26:00 GMT'' @ CRLF,
        ''Content-type: application/javascript'' @ CRLF,
        ''Content-Length: 9'' @ CRLF,
        ''Last-Modified: Tue, 03 Nov 2026 17:26:00 GMT'' @ CRLF]
       @ cors_lines @ [js_line, CRLF]),
     Body ''export {}'']"
    by (simp add: sample_lib_def protocol_version_def str_nat.simps fspath_def suffix_to_prefix)
  finally show ?thesis .
qed

text \<open>
  C2. \<open>end_headers\<close> adds a \<open>Content-Type: text/javascript\<close> line with \<open>send_header\<close>,
  which appends to the buffer: the content type line that the facility has buffered
  before stays in the block. In the sample environment the response to \<open>GET /missing.js\<close>
  (no such file) has the content type lines \<open>text/html;charset=utf-8\<close> and
  \<open>text/javascript\<close>, and the response to \<open>GET /app.js\<close> (an existing file) has
  \<open>application/javascript\<close> and \<open>text/javascript\<close>: two lines each, not a single value.
\<close>

theorem js_content_type_is_added_not_replaced:
  "connections (snd (main sample_env [Connection ''127.0.0.1'' (http11 ''GET'' ''/missing.js'')])) =
     [[HeaderBlock
        ([''HTTP/1.0 404 File not found'' @ CRLF,
          ''Server: SimpleHTTP/0.6 Python/3.11.10'' @ CRLF,
          ''Date: Tue, 03 Nov 2026 17:26:00 GMT'' @ CRLF,
          ''Connection: close'' @ CRLF,
          ''Content-Type: text/html;charset=utf-8'' @ CRLF,
          ''Content-Length: 54'' @ CRLF]
         @ cors_lines @ [js_line, CRLF]),
       Body ''<h1>Error response</h1><p>Message: File not found.</p>'']]
   \<and> content_type_lines
        ([''HTTP/1.0 404 File not found'' @ CRLF,
          ''Server: SimpleHTTP/0.6 Python/3.11.10'' @ CRLF,
          ''Date: Tue, 03 Nov 2026 17:26:00 GMT'' @ CRLF,
          ''Connection: close'' @ CRLF,
          ''Content-Type: text/html;charset=utf-8'' @ CRLF,
          ''Content-Length: 54'' @ CRLF]
         @ cors_lines @ [js_line, CRLF]) =
       [''Content-Type: text/html;charset=utf-8'' @ CRLF, ''Content-Type: text/javascript'' @ CRLF]
   \<and> connections (snd (main sample_env [Connection ''127.0.0.1'' (http11 ''GET'' ''/app.js'')])) =
     [[HeaderBlock
        ([''HTTP/1.0 200 OK'' @ CRLF,
          ''Server: SimpleHTTP/0.6 Python/3.11.10'' @ CRLF,
          ''Date: Tue, 03 Nov 2026 17:26:00 GMT'' @ CRLF,
          ''Content-type: application/javascript'' @ CRLF,
          ''Content-Length: 9'' @ CRLF,
          ''Last-Modified: Tue, 03 Nov 2026 17:26:00 GMT'' @ CRLF]
         @ cors_lines @ [js_line, CRLF]),
       Body ''export {}'']]
   \<and> content_type_lines
        ([''HTTP/1.0 200 OK'' @ CRLF,
          ''Server: SimpleHTTP/0.6 Python/3.11.10'' @ CRLF,
          ''Date: Tue, 03 Nov 2026 17:26:00 GMT'' @ CRLF,
          ''Content-type: application/javascript'' @ CRLF,
          ''Content-Length: 9'' @ CRLF,
          ''Last-Modified: Tue, 03 Nov 2026 17:26:00 GMT'' @ CRLF]
         @ cors_lines @ [js_line, CRLF]) =
       [''Content-type: application/javascript'' @ CRLF, ''Content-Type: text/javascript'' @ CRLF]"
  by (simp add: sample_run sample_missing_js sample_app_js_plain)
    (simp add: content_type_lines_def cors_lines_def js_line_def CRLF_def)

text \<open>
  C9. Whether a header block carries the line \<open>Content-Type: text/javascript\<close> depends
  on nothing but the request path as \<open>parse_request\<close> assigned it to \<open>self.path\<close>, query
  string included: the line is in the block exactly when that string ends in \<open>.js\<close>,
  for every file system, method and status. So the 404 response for a \<open>.js\<close> path with
  no file carries it, and the response for \<open>/app.js?v=1\<close> does not.
\<close>

theorem js_header_depends_on_path_only:
  assumes "HeaderBlock ls \<in> set (wfile (state_of (CustomHandler file lib fs a (Parsed r))))"
  shows "(js_line \<in> set ls) = suffix ''.js'' (reduce_slashes (rq_path r))"
  using CustomHandler_result [of "file" lib fs a "Parsed r"] assms
  by (auto simp: inv_def list_all_iff block_ok_def)

theorem js_header_depends_on_path_only_witness:
  "status_of (wfile (state_of (CustomHandler [''srv'', ''v003'', ''serve.py''] sample_lib sample_fs
      ''127.0.0.1'' (http11 ''GET'' ''/missing.js'')))) = Some ''404''
   \<and> js_line \<in> set
        ([''HTTP/1.0 404 File not found'' @ CRLF,
          ''Server: SimpleHTTP/0.6 Python/3.11.10'' @ CRLF,
          ''Date: Tue, 03 Nov 2026 17:26:00 GMT'' @ CRLF,
          ''Connection: close'' @ CRLF,
          ''Content-Type: text/html;charset=utf-8'' @ CRLF,
          ''Content-Length: 54'' @ CRLF]
         @ cors_lines @ [js_line, CRLF])
   \<and> suffix ''.js'' (reduce_slashes ''/missing.js'')
   \<and> status_of (wfile (state_of (CustomHandler [''srv'', ''v003'', ''serve.py''] sample_lib sample_fs
      ''127.0.0.1'' (http11 ''GET'' ''/app.js?v=1'')))) = Some ''200''
   \<and> js_line \<notin> set
        ([''HTTP/1.0 200 OK'' @ CRLF,
          ''Server: SimpleHTTP/0.6 Python/3.11.10'' @ CRLF,
          ''Date: Tue, 03 Nov 2026 17:26:00 GMT'' @ CRLF,
          ''Content-type: application/javascript'' @ CRLF,
          ''Content-Length: 9'' @ CRLF,
          ''Last-Modified: Tue, 03 Nov 2026 17:26:00 GMT'' @ CRLF]
         @ cors_lines @ [CRLF])
   \<and> \<not> suffix ''.js'' (reduce_slashes ''/app.js?v=1'')"
  using js_header_depends_on_path_only
    [of "[''HTTP/1.0 404 File not found'' @ CRLF,
          ''Server: SimpleHTTP/0.6 Python/3.11.10'' @ CRLF,
          ''Date: Tue, 03 Nov 2026 17:26:00 GMT'' @ CRLF,
          ''Connection: close'' @ CRLF,
          ''Content-Type: text/html;charset=utf-8'' @ CRLF,
          ''Content-Length: 54'' @ CRLF]
         @ cors_lines @ [js_line, CRLF]"
        "[''srv'', ''v003'', ''serve.py'']" sample_lib sample_fs "''127.0.0.1''"
        "\<lparr>rq_line = ''GET /missing.js HTTP/1.1'', rq_command = ''GET'', rq_path = ''/missing.js'',
          rq_version = ''HTTP/1.1'', rq_headers_error = None, rq_if_modified_since = None\<rparr>"]
    js_header_depends_on_path_only
    [of "[''HTTP/1.0 200 OK'' @ CRLF,
          ''Server: SimpleHTTP/0.6 Python/3.11.10'' @ CRLF,
          ''Date: Tue, 03 Nov 2026 17:26:00 GMT'' @ CRLF,
          ''Content-type: application/javascript'' @ CRLF,
          ''Content-Length: 9'' @ CRLF,
          ''Last-Modified: Tue, 03 Nov 2026 17:26:00 GMT'' @ CRLF]
         @ cors_lines @ [CRLF]"
        "[''srv'', ''v003'', ''serve.py'']" sample_lib sample_fs "''127.0.0.1''"
        "\<lparr>rq_line = ''GET /app.js?v=1 HTTP/1.1'', rq_command = ''GET'', rq_path = ''/app.js?v=1'',
          rq_version = ''HTTP/1.1'', rq_headers_error = None, rq_if_modified_since = None\<rparr>"]
    sample_missing_js [of "''127.0.0.1''"] sample_app_js [of "''127.0.0.1''"]
  by (simp add: http11_def status_of_def protocol_version_def reduce_slashes_def
      suffix_to_prefix js_line_def cors_lines_def CRLF_def)

section \<open>Serving and configuration\<close>

lemma sample_serving: "\<not> port_in_use sample_env PORT" "sigint_at sample_env = None"
  by (simp_all add: sample_env_def)

text \<open>
  C4. While the server is in \<open>serve_forever\<close>, having served the connections \<open>pre\<close>, an
  interrupt ends the loop: the handler of \<open>main\<close> prints the shutdown notice as the last
  output, \<open>sys.exit(0)\<close> leaves the \<open>with\<close> statement, which closes the listening socket,
  and the process exits with status 0. The connections \<open>post\<close> that come after the
  interrupt are not served.
\<close>

theorem interrupt_while_serving_exits_0:
  assumes "\<not> port_in_use e PORT" "sigint_at e = None" "SIGINT \<notin> set pre"
  shows "fst (main e pre) = None \<and> listening (snd (main e pre)) = Some PORT
         \<and> fst (script e (pre @ SIGINT # post)) = Some 0
         \<and> stdout (snd (script e (pre @ SIGINT # post))) = stdout (snd (main e pre)) @ [shutdown_notice]
         \<and> stderr (snd (script e (pre @ SIGINT # post))) = stderr (snd (main e pre))
         \<and> listening (snd (script e (pre @ SIGINT # post))) = None
         \<and> connections (snd (script e (pre @ SIGINT # post))) = connections (snd (main e pre))"
  using assms(3)
  by (simp add: main_serving [OF assms(1,2)] script_def Let_def serve_forever_interrupt
      serve_forever_frame server_close_def print_def)

theorem interrupt_while_serving_exits_0_witness:
  "fst (script sample_env
     ([Connection ''127.0.0.1'' (http11 ''GET'' ''/missing.js'')] @ SIGINT
        # [Connection ''127.0.0.1'' (http11 ''GET'' ''/app.js'')])) = Some 0
   \<and> last (stdout (snd (script sample_env
     ([Connection ''127.0.0.1'' (http11 ''GET'' ''/missing.js'')] @ SIGINT
        # [Connection ''127.0.0.1'' (http11 ''GET'' ''/app.js'')])))) = shutdown_notice
   \<and> listening (snd (script sample_env
     ([Connection ''127.0.0.1'' (http11 ''GET'' ''/missing.js'')] @ SIGINT
        # [Connection ''127.0.0.1'' (http11 ''GET'' ''/app.js'')]))) = None
   \<and> length (connections (snd (script sample_env
     ([Connection ''127.0.0.1'' (http11 ''GET'' ''/missing.js'')] @ SIGINT
        # [Connection ''127.0.0.1'' (http11 ''GET'' ''/app.js'')])))) = 1"
  using interrupt_while_serving_exits_0 [OF sample_serving,
      of "[Connection ''127.0.0.1'' (http11 ''GET'' ''/missing.js'')]"
         "[Connection ''127.0.0.1'' (http11 ''GET'' ''/app.js'')]"]
  by (simp add: sample_run)

text \<open>
  C7. The port is the constant 8000. Handling a connection, and so the whole serve loop,
  changes neither the working directory nor the listening socket nor the ports bound,
  and every handler is constructed with the directory of the script: while \<open>main\<close> is
  serving, the working directory is the script's directory and the socket listens on
  port 8000.
\<close>

theorem configuration_is_not_modified:
  "PORT = 8000
   \<and> directory (state_of (CustomHandler (script_file e) (library e) (files e) a rq)) =
       parent (script_file e)
   \<and> cwd (state_of (handle_request_noblock e a rq p)) = cwd p
   \<and> listening (state_of (handle_request_noblock e a rq p)) = listening p
   \<and> bind_calls (state_of (handle_request_noblock e a rq p)) = bind_calls p
   \<and> cwd (snd (serve_forever e evs p)) = cwd p
   \<and> listening (snd (serve_forever e evs p)) = listening p
   \<and> bind_calls (snd (serve_forever e evs p)) = bind_calls p
   \<and> (\<not> port_in_use e PORT \<and> sigint_at e = None \<and> SIGINT \<notin> set evs \<longrightarrow>
        cwd (snd (main e evs)) = parent (script_file e)
        \<and> listening (snd (main e evs)) = Some 8000
        \<and> bind_calls (snd (main e evs)) = [8000])"
  using CustomHandler_result [of "script_file e" "library e" "files e" a rq]
  by (auto simp: PORT_def handle_request_noblock_eq serve_forever_frame main_serving Let_def)

theorem configuration_is_not_modified_witness:
  "cwd (snd (main sample_env [Connection ''127.0.0.1'' (http11 ''GET'' ''/missing.js'')])) =
     [''srv'', ''v003'']
   \<and> listening (snd (main sample_env [Connection ''127.0.0.1'' (http11 ''GET'' ''/missing.js'')])) =
     Some 8000"
  using configuration_is_not_modified [of sample_env "''127.0.0.1''" NoRequest
      "snd (main sample_env [])" "[Connection ''127.0.0.1'' (http11 ''GET'' ''/missing.js'')]"]
    sample_serving
  by (simp add: sample_env_def parent_def)









end
